theory Spec2Isabelle
  imports Main "HOL-Library.Word"
begin

section \<open>Data model of \<open>api/proxypanel/proxypanel.go\<close>\<close>

text \<open>
  Go's \<open>int\<close> is a two's-complement machine integer (64 bits on the platforms the agent is
  built for): \<open>+\<close> and \<open>-\<close> wrap, comparisons are signed (\<open><s\<close>).  \<open>uint64\<close> is the same
  word read unsigned.  A \<open>json.RawMessage\<close> is a byte string.
\<close>

type_synonym goint = "64 word"
type_synonym uint64 = "64 word"
type_synonym raw = string

text \<open>
  \<open>api.DetectRule\<close>: rule id and compiled pattern.  A compiled \<open>*regexp.Regexp\<close> is
  represented by the expression it was compiled from.
\<close>

datatype Regexp = Compiled string

record DetectRule =
  rule_ID :: goint
  rule_Pattern :: Regexp

text \<open>
  \<open>APIClient\<close>.  The resty client is the transport model below; the mutex has no
  counterpart, the model being sequential.  The type \<open>'f\<close> stands for \<open>float64\<close>, whose
  operations are parameters (record \<open>externals\<close>).
\<close>

record 'f APIClient =
  APIHost :: string
  NodeID :: goint
  Key :: string
  NodeType :: string
  EnableVless :: bool
  EnableXTLS :: bool
  SpeedLimit :: 'f
  DeviceLimit :: goint
  LocalRuleList :: "DetectRule list"
  LastReportOnline :: "goint \<rightharpoonup> goint"

text \<open>
  The response envelope \<open>Response\<close> (declared outside this file): the fields this file reads,
  \<open>Status\<close> and \<open>Data\<close>, and the message of the envelope \<open>{status, message, data}\<close>.
\<close>

record Response =
  Status :: string
  Message :: string
  Data :: raw

text \<open>The wire records of the three protocol families, with the fields this file reads.\<close>

record V2rayNodeInfo =
  v2_SpeedLimit :: uint64
  v2_ClientLimit :: goint
  V2Port :: goint
  V2AlterID :: goint
  V2Net :: string
  V2Type :: string
  V2Path :: string
  V2TLS :: bool
  V2Host :: string

record ShadowsocksNodeInfo =
  ss_SpeedLimit :: uint64
  ss_ClientLimit :: goint
  ss_Port :: goint
  ss_Method :: string

record TrojanNodeInfo =
  tr_SpeedLimit :: uint64
  tr_ClientLimit :: goint
  TrojanPort :: goint

record VMessUser =
  vm_UID :: goint
  VmessUID :: string
  vm_SpeedLimit :: uint64
  vm_DeviceLimit :: goint
  vm_OnlineCount :: goint

record TrojanUser =
  tu_UID :: goint
  tu_Password :: string
  tu_SpeedLimit :: uint64
  tu_DeviceLimit :: goint
  tu_OnlineCount :: goint

text \<open>
  Modelled from the spec: the declaration of \<open>SSUser\<close> is not in this file.  The parser
  reads \<open>UID\<close>, \<open>Password\<close> and \<open>SpeedLimit\<close>; the device limit and the online count are the
  payload values that section 4.1 of the specification attributes to every variant.
\<close>

record SSUser =
  su_UID :: goint
  su_Password :: string
  su_SpeedLimit :: uint64
  su_DeviceLimit :: goint
  su_OnlineCount :: goint

record PanelRule =
  pr_ID :: goint
  pr_Type :: string
  pr_Pattern :: string

record NodeRule =
  Mode :: string
  Rules :: "PanelRule list"

text \<open>The normalized records of package \<open>api\<close>, with the fields this file writes.\<close>

record NodeInfo =
  ni_NodeType :: string
  ni_NodeID :: goint
  ni_Port :: goint
  ni_SpeedLimit :: uint64
  ni_DeviceLimit :: goint
  ni_AlterID :: goint
  ni_TransportProtocol :: string
  ni_FakeType :: string
  ni_ServiceName :: string
  ni_Header :: raw
  ni_EnableTLS :: bool
  ni_TLSType :: string
  ni_Path :: string
  ni_Host :: string
  ni_EnableVless :: bool
  ni_CypherMethod :: string

record UserInfo =
  UID :: goint
  Email :: string
  Passwd :: string
  UUID :: string
  ui_DeviceLimit :: goint
  ui_SpeedLimit :: uint64

record OnlineUser =
  ou_UID :: goint
  ou_IP :: string

record 'f ApiNodeStatus =
  st_CPU :: 'f
  st_Mem :: 'f
  st_Disk :: 'f
  st_Uptime :: goint

record ApiUserTraffic =
  ut_UID :: goint
  ut_Upload :: goint
  ut_Download :: goint

record DetectResult =
  dr_UID :: goint
  dr_RuleID :: goint

text \<open>The request bodies this file builds.\<close>

record NodeStatus =
  ns_Uptime :: goint
  ns_CPU :: string
  ns_Mem :: string
  ns_Disk :: string

record NodeOnline =
  no_UID :: goint
  no_IP :: string

record UserTraffic =
  tf_UID :: goint
  tf_Upload :: goint
  tf_Download :: goint

record IllegalReport =
  ir_RuleID :: goint
  ir_UID :: goint
  ir_Reason :: string

datatype body =
    NoBody
  | StatusBody NodeStatus
  | OnlineBody "NodeOnline list"
  | TrafficBody "UserTraffic list"
  | IllegalBody IllegalReport

datatype http_method = GET | POST

record request =
  rq_method :: http_method
  rq_path :: string
  rq_key :: string
  rq_timestamp :: string
  rq_body :: body

text \<open>
  What \<open>Get\<close>/\<open>Post\<close> hand back: a transport error, or a response with its status code, its
  body and the envelope held by \<open>res.Result()\<close>.
\<close>

datatype reply =
    TransportError string
  | HttpResponse goint string Response

text \<open>The errors this file builds with \<open>fmt.Errorf\<close>, by format string, and its panics.\<close>

datatype error =
    UnsupportedNodeType string
  | RequestFailed string string
  | RequestFailedStatus string string
  | RetInvalid string
  | UnmarshalFailed string
  | ParseNodeInfoFailed string error
  | ParseUserListFailed string

datatype panic =
    NilDereference
  | RegexpMustCompile string

datatype 'a outcome =
    Return 'a
  | Error error
  | Panic panic

text \<open>
  Everything outside the package is a parameter: the \<open>float64\<close> operations, the JSON
  decoders and encoders (\<open>Inl\<close> the decoder's error), the syntax check of \<open>regexp\<close>, the
  clock and the panel behind the transport, both as functions of the requests sent so far.
\<close>

record 'f externals =
  float_positive :: "'f \<Rightarrow> bool"
  float_speed :: "'f \<Rightarrow> uint64"
  float_to_int :: "'f \<Rightarrow> goint"
  unmarshal_V2rayNodeInfo :: "raw \<Rightarrow> string + V2rayNodeInfo"
  unmarshal_ShadowsocksNodeInfo :: "raw \<Rightarrow> string + ShadowsocksNodeInfo"
  unmarshal_TrojanNodeInfo :: "raw \<Rightarrow> string + TrojanNodeInfo"
  unmarshal_VMessUsers :: "raw \<Rightarrow> string + VMessUser option list"
  unmarshal_TrojanUsers :: "raw \<Rightarrow> string + TrojanUser option list"
  unmarshal_SSUsers :: "raw \<Rightarrow> string + SSUser option list"
  unmarshal_NodeRule :: "raw \<Rightarrow> string + NodeRule"
  marshal_Response :: "Response \<Rightarrow> string"
  marshal_raw :: "raw \<Rightarrow> string"
  regexp_compiles :: "string \<Rightarrow> bool"
  unix_time :: "request list \<Rightarrow> int"
  panel :: "request list \<Rightarrow> request \<Rightarrow> reply"

section \<open>Formatting\<close>

text \<open>\<open>%d\<close> and \<open>strconv.FormatInt(_, 10)\<close>: decimal digits, with a minus sign below zero.\<close>

definition digit_char :: "nat \<Rightarrow> char" where
  "digit_char d = ''0123456789'' ! d"

fun dec_nat :: "nat \<Rightarrow> string" where
  "dec_nat n = (if n < 10 then [digit_char n] else dec_nat (n div 10) @ [digit_char (n mod 10)])"

declare dec_nat.simps [simp del]

definition dec_int :: "int \<Rightarrow> string" where
  "dec_int i = (if i < 0 then CHR ''-'' # dec_nat (nat (- i)) else dec_nat (nat i))"

definition fmt_d :: "goint \<Rightarrow> string" where
  "fmt_d n = dec_int (sint n)"

section \<open>Requests and the response envelope\<close>

definition assembleURL :: "'f APIClient \<Rightarrow> string \<Rightarrow> string" where
  "assembleURL c path = APIHost c @ path"

text \<open>
  \<open>createCommonRequest\<close> followed by \<open>Get\<close> or \<open>Post\<close>: the request carries the key and the
  timestamp headers, is appended to the log of requests sent, and the panel's reply comes
  back.
\<close>

definition createCommonRequest ::
  "'f externals \<Rightarrow> 'f APIClient \<Rightarrow> request list \<Rightarrow> http_method \<Rightarrow> string \<Rightarrow> body \<Rightarrow> request" where
  "createCommonRequest ext c sent m path b =
     \<lparr>rq_method = m, rq_path = path, rq_key = Key c,
      rq_timestamp = dec_int (unix_time ext sent), rq_body = b\<rparr>"

definition send ::
  "'f externals \<Rightarrow> 'f APIClient \<Rightarrow> request list \<Rightarrow> http_method \<Rightarrow> string \<Rightarrow> body
     \<Rightarrow> reply \<times> request list" where
  "send ext c sent m path b =
     (let rq = createCommonRequest ext c sent m path b
      in (panel ext sent rq, sent @ [rq]))"

definition parseResponse ::
  "'f externals \<Rightarrow> 'f APIClient \<Rightarrow> reply \<Rightarrow> string \<Rightarrow> error + Response" where
  "parseResponse ext c res path =
     (case res of
        TransportError err \<Rightarrow> Inl (RequestFailed (assembleURL c path) err)
      | HttpResponse code rbody response \<Rightarrow>
          if 400 <s code then Inl (RequestFailedStatus (assembleURL c path) rbody)
          else if Status response \<noteq> ''success'' then Inl (RetInvalid (marshal_Response ext response))
          else Inr response)"

section \<open>Protocol schema adapters: node info\<close>

text \<open>
  The obfuscation header \<^verbatim>\<open>{"type":"http","request": {"path":"P"}}\<close> for the path \<open>P\<close>;
  \<open>dq\<close> is the double quote.
\<close>

definition dq :: string where
  "dq = [char_of (34 :: nat)]"

definition http_header :: "string \<Rightarrow> raw" where
  "http_header p =
     ''{'' @ dq @ ''type'' @ dq @ '':'' @ dq @ ''http'' @ dq @ '','' @ dq @ ''request'' @ dq
     @ '': {'' @ dq @ ''path'' @ dq @ '':'' @ dq @ p @ dq @ ''}}''"

definition ParseV2rayNodeResponse ::
  "'f externals \<Rightarrow> 'f APIClient \<Rightarrow> raw \<Rightarrow> error + NodeInfo" where
  "ParseV2rayNodeResponse ext c nodeInfoResponse =
     (let TLStype = (if EnableXTLS c then ''xtls'' else ''tls'')
      in case unmarshal_V2rayNodeInfo ext nodeInfoResponse of
           Inl err \<Rightarrow> Inl (UnmarshalFailed err)
         | Inr v2rayNodeInfo \<Rightarrow>
             let speedlimit = (if float_positive ext (SpeedLimit c) then float_speed ext (SpeedLimit c)
                               else v2_SpeedLimit v2rayNodeInfo);
                 devicelimit = (if 0 <s DeviceLimit c then DeviceLimit c
                                else v2_ClientLimit v2rayNodeInfo);
                 header = (if V2Type v2rayNodeInfo = ''http''
                           then http_header (V2Path v2rayNodeInfo)
                           else [])
             in Inr \<lparr>ni_NodeType = NodeType c, ni_NodeID = NodeID c,
                      ni_Port = V2Port v2rayNodeInfo, ni_SpeedLimit = speedlimit,
                      ni_DeviceLimit = devicelimit, ni_AlterID = V2AlterID v2rayNodeInfo,
                      ni_TransportProtocol = V2Net v2rayNodeInfo,
                      ni_FakeType = V2Type v2rayNodeInfo, ni_ServiceName = V2Path v2rayNodeInfo,
                      ni_Header = header, ni_EnableTLS = V2TLS v2rayNodeInfo,
                      ni_TLSType = TLStype, ni_Path = V2Path v2rayNodeInfo,
                      ni_Host = V2Host v2rayNodeInfo, ni_EnableVless = EnableVless c,
                      ni_CypherMethod = []\<rparr>)"

definition ParseSSNodeResponse ::
  "'f externals \<Rightarrow> 'f APIClient \<Rightarrow> raw \<Rightarrow> error + NodeInfo" where
  "ParseSSNodeResponse ext c nodeInfoResponse =
     (case unmarshal_ShadowsocksNodeInfo ext nodeInfoResponse of
        Inl err \<Rightarrow> Inl (UnmarshalFailed err)
      | Inr shadowsocksNodeInfo \<Rightarrow>
          let speedlimit = (if float_positive ext (SpeedLimit c) then float_speed ext (SpeedLimit c)
                            else ss_SpeedLimit shadowsocksNodeInfo);
              devicelimit = (if 0 <s DeviceLimit c then DeviceLimit c
                             else ss_ClientLimit shadowsocksNodeInfo)
          in Inr \<lparr>ni_NodeType = NodeType c, ni_NodeID = NodeID c,
                   ni_Port = ss_Port shadowsocksNodeInfo, ni_SpeedLimit = speedlimit,
                   ni_DeviceLimit = devicelimit, ni_AlterID = 0,
                   ni_TransportProtocol = ''tcp'', ni_FakeType = [], ni_ServiceName = [],
                   ni_Header = [], ni_EnableTLS = False, ni_TLSType = [], ni_Path = [],
                   ni_Host = [], ni_EnableVless = False,
                   ni_CypherMethod = ss_Method shadowsocksNodeInfo\<rparr>)"

definition ParseTrojanNodeResponse ::
  "'f externals \<Rightarrow> 'f APIClient \<Rightarrow> raw \<Rightarrow> error + NodeInfo" where
  "ParseTrojanNodeResponse ext c nodeInfoResponse =
     (let TLSType = (if EnableXTLS c then ''xtls'' else ''tls'')
      in case unmarshal_TrojanNodeInfo ext nodeInfoResponse of
           Inl err \<Rightarrow> Inl (UnmarshalFailed err)
         | Inr trojanNodeInfo \<Rightarrow>
             let speedlimit = (if float_positive ext (SpeedLimit c) then float_speed ext (SpeedLimit c)
                               else tr_SpeedLimit trojanNodeInfo);
                 devicelimit = (if 0 <s DeviceLimit c then DeviceLimit c
                                else tr_ClientLimit trojanNodeInfo)
             in Inr \<lparr>ni_NodeType = NodeType c, ni_NodeID = NodeID c,
                      ni_Port = TrojanPort trojanNodeInfo, ni_SpeedLimit = speedlimit,
                      ni_DeviceLimit = devicelimit, ni_AlterID = 0,
                      ni_TransportProtocol = ''tcp'', ni_FakeType = [], ni_ServiceName = [],
                      ni_Header = [], ni_EnableTLS = True, ni_TLSType = TLSType, ni_Path = [],
                      ni_Host = [], ni_EnableVless = False, ni_CypherMethod = []\<rparr>)"

section \<open>Protocol schema adapters: user lists, with the limit reconciliation\<close>

text \<open>
  The body of the \<open>for\<close> loop of \<open>ParseV2rayUserListResponse\<close> for one decoded record: the
  entry appended to \<open>userList\<close> (\<open>None\<close> where the source says \<open>continue\<close>) and the client
  with its \<open>LastReportOnline\<close> after the iteration.
\<close>

definition v2ray_user_step ::
  "'f externals \<Rightarrow> 'f APIClient \<Rightarrow> VMessUser \<Rightarrow> UserInfo option \<times> 'f APIClient" where
  "v2ray_user_step ext c user =
     (let speedlimit = (if float_positive ext (SpeedLimit c) then float_speed ext (SpeedLimit c)
                        else vm_SpeedLimit user);
          devicelimit = (if 0 <s DeviceLimit c then DeviceLimit c else vm_DeviceLimit user);
          entry = (\<lambda>d. \<lparr>UID = vm_UID user, Email = [], Passwd = [], UUID = VmessUID user,
                         ui_DeviceLimit = d, ui_SpeedLimit = speedlimit\<rparr>)
      in if 0 <s devicelimit \<and> 0 <s vm_OnlineCount user then
           let lastOnline = (case LastReportOnline c (vm_UID user) of Some v \<Rightarrow> v | None \<Rightarrow> 0);
               localDeviceLimit = devicelimit - vm_OnlineCount user + lastOnline
           in if 0 <s localDeviceLimit then (Some (entry localDeviceLimit), c)
              else if 0 <s lastOnline then (Some (entry lastOnline), c)
              else (None, c)
         else if vm_OnlineCount user = 0 \<and> LastReportOnline c (vm_UID user) \<noteq> None then
           (Some (entry devicelimit),
            c\<lparr>LastReportOnline := (LastReportOnline c)(vm_UID user := None)\<rparr>)
         else (Some (entry devicelimit), c))"

text \<open>
  The loop over the decoded slice of pointers: a \<open>null\<close> element decodes to a nil pointer,
  whose first field read panics.
\<close>

fun v2ray_user_loop ::
  "'f externals \<Rightarrow> 'f APIClient \<Rightarrow> VMessUser option list \<Rightarrow> UserInfo list
     \<Rightarrow> UserInfo list outcome \<times> 'f APIClient" where
  "v2ray_user_loop ext c [] userList = (Return userList, c)"
| "v2ray_user_loop ext c (None # rest) userList = (Panic NilDereference, c)"
| "v2ray_user_loop ext c (Some user # rest) userList =
     (case v2ray_user_step ext c user of
        (None, c') \<Rightarrow> v2ray_user_loop ext c' rest userList
      | (Some info, c') \<Rightarrow> v2ray_user_loop ext c' rest (userList @ [info]))"

definition ParseV2rayUserListResponse ::
  "'f externals \<Rightarrow> 'f APIClient \<Rightarrow> raw \<Rightarrow> UserInfo list outcome \<times> 'f APIClient" where
  "ParseV2rayUserListResponse ext c userInfoResponse =
     (case unmarshal_VMessUsers ext userInfoResponse of
        Inl err \<Rightarrow> (Error (UnmarshalFailed err), c)
      | Inr vmessUserList \<Rightarrow> v2ray_user_loop ext c vmessUserList [])"

definition trojan_user_step ::
  "'f externals \<Rightarrow> 'f APIClient \<Rightarrow> TrojanUser \<Rightarrow> UserInfo option \<times> 'f APIClient" where
  "trojan_user_step ext c user =
     (let speedlimit = (if float_positive ext (SpeedLimit c) then float_speed ext (SpeedLimit c)
                        else tu_SpeedLimit user);
          devicelimit = (if 0 <s DeviceLimit c then DeviceLimit c else tu_DeviceLimit user);
          entry = (\<lambda>d. \<lparr>UID = tu_UID user, Email = [], Passwd = [], UUID = tu_Password user,
                         ui_DeviceLimit = d, ui_SpeedLimit = speedlimit\<rparr>)
      in if 0 <s devicelimit \<and> 0 <s tu_OnlineCount user then
           let lastOnline = (case LastReportOnline c (tu_UID user) of Some v \<Rightarrow> v | None \<Rightarrow> 0);
               localDeviceLimit = devicelimit - tu_OnlineCount user + lastOnline
           in if 0 <s localDeviceLimit then (Some (entry localDeviceLimit), c)
              else if 0 <s lastOnline then (Some (entry lastOnline), c)
              else (None, c)
         else if tu_OnlineCount user = 0 \<and> LastReportOnline c (tu_UID user) \<noteq> None then
           (Some (entry devicelimit),
            c\<lparr>LastReportOnline := (LastReportOnline c)(tu_UID user := None)\<rparr>)
         else (Some (entry devicelimit), c))"

fun trojan_user_loop ::
  "'f externals \<Rightarrow> 'f APIClient \<Rightarrow> TrojanUser option list \<Rightarrow> UserInfo list
     \<Rightarrow> UserInfo list outcome \<times> 'f APIClient" where
  "trojan_user_loop ext c [] userList = (Return userList, c)"
| "trojan_user_loop ext c (None # rest) userList = (Panic NilDereference, c)"
| "trojan_user_loop ext c (Some user # rest) userList =
     (case trojan_user_step ext c user of
        (None, c') \<Rightarrow> trojan_user_loop ext c' rest userList
      | (Some info, c') \<Rightarrow> trojan_user_loop ext c' rest (userList @ [info]))"

definition ParseTrojanUserListResponse ::
  "'f externals \<Rightarrow> 'f APIClient \<Rightarrow> raw \<Rightarrow> UserInfo list outcome \<times> 'f APIClient" where
  "ParseTrojanUserListResponse ext c userInfoResponse =
     (case unmarshal_TrojanUsers ext userInfoResponse of
        Inl err \<Rightarrow> (Error (UnmarshalFailed err), c)
      | Inr trojanUserList \<Rightarrow> trojan_user_loop ext c trojanUserList [])"

text \<open>
  \<open>ParseSSUserListResponse\<close> allocates the result with the length of the payload and
  writes entry \<open>i\<close> in iteration \<open>i\<close>; it reads nothing of the client but \<open>SpeedLimit\<close> and
  \<open>DeviceLimit\<close>.
\<close>

definition zero_UserInfo :: UserInfo where
  "zero_UserInfo =
     \<lparr>UID = 0, Email = [], Passwd = [], UUID = [], ui_DeviceLimit = 0, ui_SpeedLimit = 0\<rparr>"

definition ss_user_entry :: "'f externals \<Rightarrow> 'f APIClient \<Rightarrow> SSUser \<Rightarrow> UserInfo" where
  "ss_user_entry ext c user =
     (let speedlimit = (if float_positive ext (SpeedLimit c) then float_speed ext (SpeedLimit c)
                        else su_SpeedLimit user)
      in \<lparr>UID = su_UID user, Email = [], Passwd = su_Password user, UUID = [],
          ui_DeviceLimit = DeviceLimit c, ui_SpeedLimit = speedlimit\<rparr>)"

fun ss_user_loop ::
  "'f externals \<Rightarrow> 'f APIClient \<Rightarrow> SSUser option list \<Rightarrow> nat \<Rightarrow> UserInfo list
     \<Rightarrow> UserInfo list outcome" where
  "ss_user_loop ext c [] i userList = Return userList"
| "ss_user_loop ext c (None # rest) i userList = Panic NilDereference"
| "ss_user_loop ext c (Some user # rest) i userList =
     ss_user_loop ext c rest (Suc i) (userList[i := ss_user_entry ext c user])"

definition ParseSSUserListResponse ::
  "'f externals \<Rightarrow> 'f APIClient \<Rightarrow> raw \<Rightarrow> UserInfo list outcome \<times> 'f APIClient" where
  "ParseSSUserListResponse ext c userInfoResponse =
     (case unmarshal_SSUsers ext userInfoResponse of
        Inl err \<Rightarrow> (Error (UnmarshalFailed err), c)
      | Inr ssUserList \<Rightarrow>
          (ss_user_loop ext c ssUserList 0 (replicate (length ssUserList) zero_UserInfo), c))"

section \<open>The sync client\<close>

text \<open>
  Every operation starts with the same \<open>switch\<close> on \<open>c.NodeType\<close>, which formats the path
  or, in its \<open>default\<close> branch, returns the error: \<open>None\<close> below.  The operations take the
  log of the requests sent so far and return it extended; \<open>GetUserList\<close> and
  \<open>ReportNodeOnlineUsers\<close>, which write \<open>c.LastReportOnline\<close>, return the client as well.
\<close>

definition GetNodeInfo_path :: "'f APIClient \<Rightarrow> string option" where
  "GetNodeInfo_path c =
     (if NodeType c = ''V2ray'' then Some (''/api/v2ray/v1/node/'' @ fmt_d (NodeID c))
      else if NodeType c = ''Trojan'' then Some (''/api/trojan/v1/node/'' @ fmt_d (NodeID c))
      else if NodeType c = ''Shadowsocks'' then Some (''/api/ss/v1/node/'' @ fmt_d (NodeID c))
      else None)"

definition GetUserList_path :: "'f APIClient \<Rightarrow> string option" where
  "GetUserList_path c =
     (if NodeType c = ''V2ray'' then Some (''/api/v2ray/v1/userList/'' @ fmt_d (NodeID c))
      else if NodeType c = ''Trojan'' then Some (''/api/trojan/v1/userList/'' @ fmt_d (NodeID c))
      else if NodeType c = ''Shadowsocks'' then Some (''/api/ss/v1/userList/'' @ fmt_d (NodeID c))
      else None)"

definition ReportNodeStatus_path :: "'f APIClient \<Rightarrow> string option" where
  "ReportNodeStatus_path c =
     (if NodeType c = ''V2ray'' then Some (''/api/v2ray/v1/nodeStatus/'' @ fmt_d (NodeID c))
      else if NodeType c = ''Trojan'' then Some (''/api/trojan/v1/nodeStatus/'' @ fmt_d (NodeID c))
      else if NodeType c = ''Shadowsocks'' then Some (''/api/ss/v1/nodeStatus/'' @ fmt_d (NodeID c))
      else None)"

definition ReportNodeOnlineUsers_path :: "'f APIClient \<Rightarrow> string option" where
  "ReportNodeOnlineUsers_path c =
     (if NodeType c = ''V2ray'' then Some (''/api/v2ray/v1/nodeOnline/'' @ fmt_d (NodeID c))
      else if NodeType c = ''Trojan'' then Some (''/api/trojan/v1/nodeOnline/'' @ fmt_d (NodeID c))
      else if NodeType c = ''Shadowsocks'' then Some (''/api/ss/v1/nodeOnline/'' @ fmt_d (NodeID c))
      else None)"

definition ReportUserTraffic_path :: "'f APIClient \<Rightarrow> string option" where
  "ReportUserTraffic_path c =
     (if NodeType c = ''V2ray'' then Some (''/api/v2ray/v1/userTraffic/'' @ fmt_d (NodeID c))
      else if NodeType c = ''Trojan'' then Some (''/api/trojan/v1/userTraffic/'' @ fmt_d (NodeID c))
      else if NodeType c = ''Shadowsocks'' then Some (''/api/ss/v1/userTraffic/'' @ fmt_d (NodeID c))
      else None)"

definition GetNodeRule_path :: "'f APIClient \<Rightarrow> string option" where
  "GetNodeRule_path c =
     (if NodeType c = ''V2ray'' then Some (''/api/v2ray/v1/nodeRule/'' @ fmt_d (NodeID c))
      else if NodeType c = ''Trojan'' then Some (''/api/trojan/v1/nodeRule/'' @ fmt_d (NodeID c))
      else if NodeType c = ''Shadowsocks'' then Some (''/api/ss/v1/nodeRule/'' @ fmt_d (NodeID c))
      else None)"

definition ReportIllegal_path :: "'f APIClient \<Rightarrow> string option" where
  "ReportIllegal_path c =
     (if NodeType c = ''V2ray'' then Some (''/api/v2ray/v1/trigger/'' @ fmt_d (NodeID c))
      else if NodeType c = ''Trojan'' then Some (''/api/trojan/v1/trigger/'' @ fmt_d (NodeID c))
      else if NodeType c = ''Shadowsocks'' then Some (''/api/ss/v1/trigger/'' @ fmt_d (NodeID c))
      else None)"

definition GetNodeInfo ::
  "'f externals \<Rightarrow> 'f APIClient \<Rightarrow> request list \<Rightarrow> NodeInfo outcome \<times> request list" where
  "GetNodeInfo ext c sent =
     (case GetNodeInfo_path c of
        None \<Rightarrow> (Error (UnsupportedNodeType (NodeType c)), sent)
      | Some path \<Rightarrow>
          (case send ext c sent GET path NoBody of
             (res, sent') \<Rightarrow>
               (case parseResponse ext c res path of
                  Inl err \<Rightarrow> (Error err, sent')
                | Inr response \<Rightarrow>
                    (case (if NodeType c = ''V2ray''
                             then Some (ParseV2rayNodeResponse ext c (Data response))
                           else if NodeType c = ''Trojan''
                             then Some (ParseTrojanNodeResponse ext c (Data response))
                           else if NodeType c = ''Shadowsocks''
                             then Some (ParseSSNodeResponse ext c (Data response))
                           else None) of
                       None \<Rightarrow> (Error (UnsupportedNodeType (NodeType c)), sent')
                     | Some (Inl err) \<Rightarrow>
                         (Error (ParseNodeInfoFailed (marshal_raw ext (Data response)) err), sent')
                     | Some (Inr nodeInfo) \<Rightarrow> (Return nodeInfo, sent')))))"

definition GetUserList ::
  "'f externals \<Rightarrow> 'f APIClient \<Rightarrow> request list
     \<Rightarrow> UserInfo list outcome \<times> 'f APIClient \<times> request list" where
  "GetUserList ext c sent =
     (case GetUserList_path c of
        None \<Rightarrow> (Error (UnsupportedNodeType (NodeType c)), c, sent)
      | Some path \<Rightarrow>
          (case send ext c sent GET path NoBody of
             (res, sent') \<Rightarrow>
               (case parseResponse ext c res path of
                  Inl err \<Rightarrow> (Error err, c, sent')
                | Inr response \<Rightarrow>
                    (case (if NodeType c = ''V2ray''
                             then Some (ParseV2rayUserListResponse ext c (Data response))
                           else if NodeType c = ''Trojan''
                             then Some (ParseTrojanUserListResponse ext c (Data response))
                           else if NodeType c = ''Shadowsocks''
                             then Some (ParseSSUserListResponse ext c (Data response))
                           else None) of
                       None \<Rightarrow> (Error (UnsupportedNodeType (NodeType c)), c, sent')
                     | Some (Return userList, c') \<Rightarrow> (Return userList, c', sent')
                     | Some (Error err, c') \<Rightarrow>
                         (Error (ParseUserListFailed (marshal_raw ext (Data response))), c', sent')
                     | Some (Panic p, c') \<Rightarrow> (Panic p, c', sent')))))"

definition ReportNodeStatus ::
  "'f externals \<Rightarrow> 'f APIClient \<Rightarrow> request list \<Rightarrow> 'f ApiNodeStatus
     \<Rightarrow> unit outcome \<times> request list" where
  "ReportNodeStatus ext c sent nodeStatus =
     (case ReportNodeStatus_path c of
        None \<Rightarrow> (Error (UnsupportedNodeType (NodeType c)), sent)
      | Some path \<Rightarrow>
          (let systemload =
                 \<lparr>ns_Uptime = st_Uptime nodeStatus,
                  ns_CPU = fmt_d (float_to_int ext (st_CPU nodeStatus)) @ ''%'',
                  ns_Mem = fmt_d (float_to_int ext (st_Mem nodeStatus)) @ ''%'',
                  ns_Disk = fmt_d (float_to_int ext (st_Disk nodeStatus)) @ ''%''\<rparr>
           in case send ext c sent POST path (StatusBody systemload) of
                (res, sent') \<Rightarrow>
                  (case parseResponse ext c res path of
                     Inl err \<Rightarrow> (Error err, sent')
                   | Inr response \<Rightarrow> (Return (), sent'))))"

text \<open>
  The counting loop of \<open>ReportNodeOnlineUsers\<close>: an id already in the fresh map is
  incremented, a new one starts at 1.  The request data is the list of \<open>{UID, IP}\<close> pairs.
\<close>

fun count_online :: "OnlineUser list \<Rightarrow> (goint \<rightharpoonup> goint) \<Rightarrow> (goint \<rightharpoonup> goint)" where
  "count_online [] reportOnline = reportOnline"
| "count_online (user # rest) reportOnline =
     count_online rest
       (case reportOnline (ou_UID user) of
          Some n \<Rightarrow> reportOnline(ou_UID user \<mapsto> n + 1)
        | None \<Rightarrow> reportOnline(ou_UID user \<mapsto> 1))"

definition ReportNodeOnlineUsers ::
  "'f externals \<Rightarrow> 'f APIClient \<Rightarrow> request list \<Rightarrow> OnlineUser list
     \<Rightarrow> unit outcome \<times> 'f APIClient \<times> request list" where
  "ReportNodeOnlineUsers ext c sent onlineUserList =
     (case ReportNodeOnlineUsers_path c of
        None \<Rightarrow> (Error (UnsupportedNodeType (NodeType c)), c, sent)
      | Some path \<Rightarrow>
          (let reportOnline = count_online onlineUserList Map.empty;
               data = map (\<lambda>user. \<lparr>no_UID = ou_UID user, no_IP = ou_IP user\<rparr>) onlineUserList;
               c' = c\<lparr>LastReportOnline := reportOnline\<rparr>
           in case send ext c' sent POST path (OnlineBody data) of
                (res, sent') \<Rightarrow>
                  (case parseResponse ext c' res path of
                     Inl err \<Rightarrow> (Error err, c', sent')
                   | Inr response \<Rightarrow> (Return (), c', sent'))))"

definition ReportUserTraffic ::
  "'f externals \<Rightarrow> 'f APIClient \<Rightarrow> request list \<Rightarrow> ApiUserTraffic list
     \<Rightarrow> unit outcome \<times> request list" where
  "ReportUserTraffic ext c sent userTraffic =
     (case ReportUserTraffic_path c of
        None \<Rightarrow> (Error (UnsupportedNodeType (NodeType c)), sent)
      | Some path \<Rightarrow>
          (let data = map (\<lambda>traffic. \<lparr>tf_UID = ut_UID traffic, tf_Upload = ut_Upload traffic,
                                      tf_Download = ut_Download traffic\<rparr>) userTraffic
           in case send ext c sent POST path (TrafficBody data) of
                (res, sent') \<Rightarrow>
                  (case parseResponse ext c res path of
                     Inl err \<Rightarrow> (Error err, sent')
                   | Inr response \<Rightarrow> (Return (), sent'))))"

text \<open>
  The loop of \<open>GetNodeRule\<close> over the panel's rules: a rule of type \<open>reg\<close> is compiled with
  \<open>regexp.MustCompile\<close>, which panics on an expression that does not compile, and appended;
  any other rule is passed over.
\<close>

fun rule_loop :: "'f externals \<Rightarrow> PanelRule list \<Rightarrow> DetectRule list \<Rightarrow> DetectRule list outcome" where
  "rule_loop ext [] ruleList = Return ruleList"
| "rule_loop ext (r # rest) ruleList =
     (if pr_Type r = ''reg'' then
        (if regexp_compiles ext (pr_Pattern r)
         then rule_loop ext rest
                (ruleList @ [\<lparr>rule_ID = pr_ID r, rule_Pattern = Compiled (pr_Pattern r)\<rparr>])
         else Panic (RegexpMustCompile (pr_Pattern r)))
      else rule_loop ext rest ruleList)"

text \<open>The second result of \<open>GetNodeRule\<close> is \<open>nil\<close> on every path and is left out.\<close>

definition GetNodeRule ::
  "'f externals \<Rightarrow> 'f APIClient \<Rightarrow> request list \<Rightarrow> DetectRule list outcome \<times> request list" where
  "GetNodeRule ext c sent =
     (case GetNodeRule_path c of
        None \<Rightarrow> (Error (UnsupportedNodeType (NodeType c)), sent)
      | Some path \<Rightarrow>
          (case send ext c sent GET path NoBody of
             (res, sent') \<Rightarrow>
               (case parseResponse ext c res path of
                  Inl err \<Rightarrow> (Error err, sent')
                | Inr response \<Rightarrow>
                    (case unmarshal_NodeRule ext (Data response) of
                       Inl err \<Rightarrow> (Error (UnmarshalFailed err), sent')
                     | Inr ruleListResponse \<Rightarrow>
                         (let ruleList = LocalRuleList c
                          in if Mode ruleListResponse \<noteq> ''reject'' then (Return ruleList, sent')
                             else (rule_loop ext (Rules ruleListResponse) ruleList, sent'))))))"

fun illegal_loop ::
  "'f externals \<Rightarrow> 'f APIClient \<Rightarrow> string \<Rightarrow> DetectResult list \<Rightarrow> request list
     \<Rightarrow> unit outcome \<times> request list" where
  "illegal_loop ext c path [] sent = (Return (), sent)"
| "illegal_loop ext c path (r # rest) sent =
     (case send ext c sent POST path
             (IllegalBody \<lparr>ir_RuleID = dr_RuleID r, ir_UID = dr_UID r,
                           ir_Reason = ''XrayR cannot save reason''\<rparr>) of
        (res, sent') \<Rightarrow>
          (case parseResponse ext c res path of
             Inl err \<Rightarrow> (Error err, sent')
           | Inr response \<Rightarrow> illegal_loop ext c path rest sent'))"

definition ReportIllegal ::
  "'f externals \<Rightarrow> 'f APIClient \<Rightarrow> request list \<Rightarrow> DetectResult list
     \<Rightarrow> unit outcome \<times> request list" where
  "ReportIllegal ext c sent detectResultList =
     (case ReportIllegal_path c of
        None \<Rightarrow> (Error (UnsupportedNodeType (NodeType c)), sent)
      | Some path \<Rightarrow> illegal_loop ext c path detectResultList sent)"

section \<open>Vocabulary of the statements\<close>

text \<open>
  The retained session count of a user id (0 when the id has no entry), the client with the
  entry of a user id removed, and the normalized entries of a V2ray and of a Trojan record
  carrying the device limit \<open>d\<close>.
\<close>

definition retained :: "'f APIClient \<Rightarrow> goint \<Rightarrow> goint" where
  "retained c uid = (case LastReportOnline c uid of Some v \<Rightarrow> v | None \<Rightarrow> 0)"

definition forget :: "'f APIClient \<Rightarrow> goint \<Rightarrow> 'f APIClient" where
  "forget c uid = c\<lparr>LastReportOnline := (LastReportOnline c)(uid := None)\<rparr>"

definition vmess_entry :: "'f externals \<Rightarrow> 'f APIClient \<Rightarrow> VMessUser \<Rightarrow> goint \<Rightarrow> UserInfo" where
  "vmess_entry ext c u d =
     \<lparr>UID = vm_UID u, Email = [], Passwd = [], UUID = VmessUID u, ui_DeviceLimit = d,
      ui_SpeedLimit = (if float_positive ext (SpeedLimit c) then float_speed ext (SpeedLimit c)
                       else vm_SpeedLimit u)\<rparr>"

definition trojan_entry :: "'f externals \<Rightarrow> 'f APIClient \<Rightarrow> TrojanUser \<Rightarrow> goint \<Rightarrow> UserInfo" where
  "trojan_entry ext c u d =
     \<lparr>UID = tu_UID u, Email = [], Passwd = [], UUID = tu_Password u, ui_DeviceLimit = d,
      ui_SpeedLimit = (if float_positive ext (SpeedLimit c) then float_speed ext (SpeedLimit c)
                       else tu_SpeedLimit u)\<rparr>"

text \<open>
  A panel and a client for the examples: \<open>float64\<close> values are stood in for by integers,
  the panel answers every request with status 200 and an empty success envelope, and no
  payload decodes until an example supplies a decoder.
\<close>

definition success_envelope :: "raw \<Rightarrow> Response" where
  "success_envelope d = \<lparr>Status = ''success'', Message = [], Data = d\<rparr>"

definition example_ext :: "int externals" where
  "example_ext =
     \<lparr>float_positive = (\<lambda>x. 0 < x),
      float_speed = (\<lambda>x. word_of_int (x * 125000)),
      float_to_int = word_of_int,
      unmarshal_V2rayNodeInfo = (\<lambda>_. Inl ''unexpected end of JSON input''),
      unmarshal_ShadowsocksNodeInfo = (\<lambda>_. Inl ''unexpected end of JSON input''),
      unmarshal_TrojanNodeInfo = (\<lambda>_. Inl ''unexpected end of JSON input''),
      unmarshal_VMessUsers = (\<lambda>_. Inl ''unexpected end of JSON input''),
      unmarshal_TrojanUsers = (\<lambda>_. Inl ''unexpected end of JSON input''),
      unmarshal_SSUsers = (\<lambda>_. Inl ''unexpected end of JSON input''),
      unmarshal_NodeRule = (\<lambda>_. Inl ''unexpected end of JSON input''),
      marshal_Response = (\<lambda>r. Status r @ '','' @ Message r @ '','' @ Data r),
      marshal_raw = (\<lambda>d. d),
      regexp_compiles = (\<lambda>p. p \<noteq> ''(''),
      unix_time = (\<lambda>sent. 1700000000 + int (length sent)),
      panel = (\<lambda>sent rq. HttpResponse 200 [] (success_envelope []))\<rparr>"

definition example_client :: "int APIClient" where
  "example_client =
     \<lparr>APIHost = ''https://panel.example'', NodeID = 7, Key = ''secret'', NodeType = ''V2ray'',
      EnableVless = False, EnableXTLS = False, SpeedLimit = 0, DeviceLimit = 0,
      LocalRuleList = [], LastReportOnline = Map.empty\<rparr>"



text \<open>
  The policy that sections 4.1 and 4.2 of the specification state for every variant, written
  out for a Shadowsocks payload: the base limit is the client's override when positive and
  the payload's value otherwise; \<open>reconcile\<close> is the algorithm of section 4.2 (\<open>None\<close>: the
  user is dropped); a user with no online session loses the retained entry.
\<close>

definition reconcile :: "goint \<Rightarrow> goint \<Rightarrow> goint \<Rightarrow> goint option" where
  "reconcile L N P =
     (if 0 <s L \<and> 0 <s N then
        (if 0 <s L - N + P then Some (L - N + P)
         else if 0 <s P then Some P
         else None)
      else Some L)"

definition ss_entry :: "'f externals \<Rightarrow> 'f APIClient \<Rightarrow> SSUser \<Rightarrow> goint \<Rightarrow> UserInfo" where
  "ss_entry ext c u d =
     \<lparr>UID = su_UID u, Email = [], Passwd = su_Password u, UUID = [], ui_DeviceLimit = d,
      ui_SpeedLimit = (if float_positive ext (SpeedLimit c) then float_speed ext (SpeedLimit c)
                       else su_SpeedLimit u)\<rparr>"

fun ss_users_spec :: "'f externals \<Rightarrow> 'f APIClient \<Rightarrow> SSUser list \<Rightarrow> UserInfo list" where
  "ss_users_spec ext c [] = []"
| "ss_users_spec ext c (u # us) =
     (let L = (if 0 <s DeviceLimit c then DeviceLimit c else su_DeviceLimit u);
          N = su_OnlineCount u;
          P = retained c (su_UID u)
      in (case reconcile L N P of None \<Rightarrow> [] | Some d \<Rightarrow> [ss_entry ext c u d])
         @ ss_users_spec ext (if N = 0 then forget c (su_UID u) else c) us)"

text \<open>A Trojan record read as a V2ray record, the password in the place of the UUID.\<close>

definition vmess_of_trojan :: "TrojanUser \<Rightarrow> VMessUser" where
  "vmess_of_trojan t =
     \<lparr>vm_UID = tu_UID t, VmessUID = tu_Password t, vm_SpeedLimit = tu_SpeedLimit t,
      vm_DeviceLimit = tu_DeviceLimit t, vm_OnlineCount = tu_OnlineCount t\<rparr>"

definition example_ss :: SSUser where
  "example_ss =
     \<lparr>su_UID = 7, su_Password = ''pw-7'', su_SpeedLimit = 0, su_DeviceLimit = 3, su_OnlineCount = 0\<rparr>"

definition example_ss_online :: SSUser where
  "example_ss_online =
     \<lparr>su_UID = 7, su_Password = ''pw-7'', su_SpeedLimit = 0, su_DeviceLimit = 3, su_OnlineCount = 5\<rparr>"

text \<open>
  The three node types the client knows; the session counts of a report, every user id
  mapped to the number of its occurrences and an id that does not occur to nothing; and the
  errors that come from the transport or from the envelope check.
\<close>

definition known_node_type :: "string \<Rightarrow> bool" where
  "known_node_type t = (t = ''V2ray'' \<or> t = ''Trojan'' \<or> t = ''Shadowsocks'')"

definition session_counts :: "OnlineUser list \<Rightarrow> (goint \<rightharpoonup> goint)" where
  "session_counts us =
     (\<lambda>uid. let k = count_list (map ou_UID us) uid
            in if k = 0 then None else Some (word_of_nat k))"

fun is_transport_or_envelope_error :: "error \<Rightarrow> bool" where
  "is_transport_or_envelope_error (RequestFailed url err) = True"
| "is_transport_or_envelope_error (RequestFailedStatus url rbody) = True"
| "is_transport_or_envelope_error (RetInvalid envelope) = True"
| "is_transport_or_envelope_error e = False"

definition example_sessions :: "OnlineUser list" where
  "example_sessions =
     [\<lparr>ou_UID = 7, ou_IP = ''10.0.0.1''\<rparr>, \<lparr>ou_UID = 8, ou_IP = ''10.0.0.2''\<rparr>,
      \<lparr>ou_UID = 7, ou_IP = ''10.0.0.3''\<rparr>]"

text \<open>
  The detection rules made of the panel rules of one type, in the panel's order, each with
  the panel's id; a panel rule set of two rules, the first with the given type and pattern;
  and a local rule list.
\<close>

definition rules_of_type :: "string \<Rightarrow> PanelRule list \<Rightarrow> DetectRule list" where
  "rules_of_type ty rs =
     map (\<lambda>r. \<lparr>rule_ID = pr_ID r, rule_Pattern = Compiled (pr_Pattern r)\<rparr>)
       (filter (\<lambda>r. pr_Type r = ty) rs)"

definition example_rules :: "string \<Rightarrow> string \<Rightarrow> string \<Rightarrow> NodeRule" where
  "example_rules mode ty pattern =
     \<lparr>Mode = mode,
      Rules = [\<lparr>pr_ID = 1, pr_Type = ty, pr_Pattern = pattern\<rparr>,
               \<lparr>pr_ID = 2, pr_Type = ''domain'', pr_Pattern = ''example.org''\<rparr>]\<rparr>"

definition example_local :: "DetectRule list" where
  "example_local = [\<lparr>rule_ID = -1, rule_Pattern = Compiled ''torrent''\<rparr>]"

text \<open>
  The endpoint template \<open>/api/{protocolSegment}/v1/{operation}/{nodeId}\<close> with the
  protocol segment of a node type, and the method and path of the requests that an
  operation added to the log (\<open>None\<close> if it did not keep the log it was given).
\<close>

definition protocol_segment :: "string \<Rightarrow> string option" where
  "protocol_segment t =
     (if t = ''V2ray'' then Some ''v2ray''
      else if t = ''Trojan'' then Some ''trojan''
      else if t = ''Shadowsocks'' then Some ''ss''
      else None)"

definition endpoint :: "string \<Rightarrow> string \<Rightarrow> goint \<Rightarrow> string" where
  "endpoint seg operation nodeId = ''/api/'' @ seg @ ''/v1/'' @ operation @ ''/'' @ fmt_d nodeId"

definition new_requests :: "request list \<Rightarrow> request list \<Rightarrow> (http_method \<times> string) list option" where
  "new_requests sent sent' =
     (if take (length sent) sent' = sent
      then Some (map (\<lambda>rq. (rq_method rq, rq_path rq)) (drop (length sent) sent'))
      else None)"

definition example_status :: "int ApiNodeStatus" where
  "example_status = \<lparr>st_CPU = 12, st_Mem = 40, st_Disk = 71, st_Uptime = 3600\<rparr>"

text \<open>
  The violation report: the body sent for one violation; the requests that carry the
  violations of a list, one each and in order, the first built on the log \<open>sent\<close> and each
  later one on the log extended by those before it; and the error, if any, in the panel's
  reply to request number \<open>j\<close> of them.  A panel that refuses the second request it sees.
\<close>

definition illegal_report :: "DetectResult \<Rightarrow> IllegalReport" where
  "illegal_report r =
     \<lparr>ir_RuleID = dr_RuleID r, ir_UID = dr_UID r, ir_Reason = ''XrayR cannot save reason''\<rparr>"

fun illegal_requests ::
  "'f externals \<Rightarrow> 'f APIClient \<Rightarrow> string \<Rightarrow> request list \<Rightarrow> DetectResult list \<Rightarrow> request list" where
  "illegal_requests ext c path sent [] = []"
| "illegal_requests ext c path sent (r # rest) =
     createCommonRequest ext c sent POST path (IllegalBody (illegal_report r))
     # illegal_requests ext c path
         (sent @ [createCommonRequest ext c sent POST path (IllegalBody (illegal_report r))]) rest"

definition reply_error ::
  "'f externals \<Rightarrow> 'f APIClient \<Rightarrow> string \<Rightarrow> request list \<Rightarrow> request list \<Rightarrow> nat \<Rightarrow> error option" where
  "reply_error ext c path sent reqs j =
     (case parseResponse ext c (panel ext (sent @ take j reqs) (reqs ! j)) path of
        Inl e \<Rightarrow> Some e
      | Inr response \<Rightarrow> None)"

definition example_violations :: "DetectResult list" where
  "example_violations =
     [\<lparr>dr_UID = 7, dr_RuleID = 1\<rparr>, \<lparr>dr_UID = 8, dr_RuleID = 2\<rparr>, \<lparr>dr_UID = 9, dr_RuleID = 3\<rparr>]"

definition failing_panel :: "request list \<Rightarrow> request \<Rightarrow> reply" where
  "failing_panel sent rq =
     (if length sent = 1 then HttpResponse 503 ''overloaded'' \<lparr>Status = [], Message = [], Data = []\<rparr>
      else HttpResponse 200 [] (success_envelope []))"

section \<open>The response envelope\<close>

lemma parseResponse_transport_error:
  "parseResponse ext c (TransportError err) path = Inl (RequestFailed (assembleURL c path) err)"
  by (simp add: parseResponse_def)

lemma parseResponse_above_400:
  "400 <s code \<Longrightarrow>
   parseResponse ext c (HttpResponse code rbody response) path =
     Inl (RequestFailedStatus (assembleURL c path) rbody)"
  by (simp add: parseResponse_def)

lemma parseResponse_not_success:
  "\<not> 400 <s code \<Longrightarrow> Status response \<noteq> ''success'' \<Longrightarrow>
   parseResponse ext c (HttpResponse code rbody response) path =
     Inl (RetInvalid (marshal_Response ext response))"
  by (simp add: parseResponse_def)

lemma parseResponse_success:
  "\<not> 400 <s code \<Longrightarrow> Status response = ''success'' \<Longrightarrow>
   parseResponse ext c (HttpResponse code rbody response) path = Inr response"
  by (simp add: parseResponse_def)

text \<open>
  C5: the envelope parser at status code 400.  The code tests \<open>StatusCode() > 400\<close>, so a
  response with status 400 is not a transport failure: it goes on to the envelope check,
  where an envelope whose status is \<open>success\<close> is returned as the result, and any other
  envelope (the blank one included) gives the envelope error, not the transport one.
\<close>

theorem parseResponse_status_400:
  "parseResponse ext c (HttpResponse 400 rbody (success_envelope d)) path = Inr (success_envelope d)
   \<and> parseResponse ext c (HttpResponse 400 rbody \<lparr>Status = [], Message = [], Data = []\<rparr>) path
       = Inl (RetInvalid (marshal_Response ext \<lparr>Status = [], Message = [], Data = []\<rparr>))"
  by (simp add: parseResponse_def success_envelope_def)

section \<open>Limit reconciliation in the V2ray and Trojan user lists\<close>




lemma v2ray_user_step_eq:
  "v2ray_user_step ext c u =
     (let L = (if 0 <s DeviceLimit c then DeviceLimit c else vm_DeviceLimit u);
          N = vm_OnlineCount u;
          P = retained c (vm_UID u)
      in if 0 <s L \<and> 0 <s N then
           (if 0 <s L - N + P then (Some (vmess_entry ext c u (L - N + P)), c)
            else if 0 <s P then (Some (vmess_entry ext c u P), c)
            else (None, c))
         else (Some (vmess_entry ext c u L),
               if N = 0 \<and> LastReportOnline c (vm_UID u) \<noteq> None then forget c (vm_UID u) else c))"
  by (auto simp add: v2ray_user_step_def Let_def retained_def forget_def vmess_entry_def)






lemma trojan_user_step_eq:
  "trojan_user_step ext c u =
     (let L = (if 0 <s DeviceLimit c then DeviceLimit c else tu_DeviceLimit u);
          N = tu_OnlineCount u;
          P = retained c (tu_UID u)
      in if 0 <s L \<and> 0 <s N then
           (if 0 <s L - N + P then (Some (trojan_entry ext c u (L - N + P)), c)
            else if 0 <s P then (Some (trojan_entry ext c u P), c)
            else (None, c))
         else (Some (trojan_entry ext c u L),
               if N = 0 \<and> LastReportOnline c (tu_UID u) \<noteq> None then forget c (tu_UID u) else c))"
  by (auto simp add: trojan_user_step_def Let_def retained_def forget_def trojan_entry_def)



text \<open>On a payload that decodes, each parser is its loop, started on the empty list.\<close>

lemma ParseV2rayUserListResponse_decoded:
  "unmarshal_VMessUsers ext userInfoResponse = Inr vmessUserList \<Longrightarrow>
   ParseV2rayUserListResponse ext c userInfoResponse = v2ray_user_loop ext c vmessUserList []"
  by (simp add: ParseV2rayUserListResponse_def)

lemma ParseTrojanUserListResponse_decoded:
  "unmarshal_TrojanUsers ext userInfoResponse = Inr trojanUserList \<Longrightarrow>
   ParseTrojanUserListResponse ext c userInfoResponse = trojan_user_loop ext c trojanUserList []"
  by (simp add: ParseTrojanUserListResponse_def)

text \<open>
  Where the arithmetic of \<open>int\<close> does not overflow, the candidate \<open>L - N + P\<close> of the loop
  is the integer \<open>L - N + P\<close>.
\<close>

lemma candidate_no_overflow:
  fixes L N P :: goint
  assumes "0 <s L" "0 <s N" "0 \<le>s P" "sint L - sint N + sint P < 2 ^ 63"
  shows "sint (L - N + P) = sint L - sint N + sint P"
proof -
  have bL: "0 < sint L" "sint L < 2 ^ 63"
    using assms(1) sint_lt[of L] by (simp_all add: word_sless_alt)
  have bN: "0 < sint N" "sint N < 2 ^ 63"
    using assms(2) sint_lt[of N] by (simp_all add: word_sless_alt)
  have bP: "0 \<le> sint P"
    using assms(3) by (simp add: word_sle_eq)
  have d: "sint (L - N) = sint L - sint N"
    using bL bN by (simp add: sint_word_ariths signed_take_bit_int_eq_self)
  show ?thesis
    using bL bN bP assms(4) d by (simp add: sint_word_ariths signed_take_bit_int_eq_self)
qed



section \<open>The Shadowsocks user list\<close>

lemma ss_user_loop_map:
  "length xs = i + length us \<Longrightarrow>
   ss_user_loop ext c (map Some us) i xs = Return (take i xs @ map (ss_user_entry ext c) us)"
proof (induction us arbitrary: i xs)
  case Nil
  then show ?case by simp
next
  case (Cons u us)
  have lt: "i < length xs"
    using Cons.prems by simp
  have len: "length (xs[i := ss_user_entry ext c u]) = Suc i + length us"
    using Cons.prems by simp
  have tk: "take (Suc i) (xs[i := ss_user_entry ext c u]) = take i xs @ [ss_user_entry ext c u]"
    using lt by (simp add: take_Suc_conv_app_nth)
  show ?case
    using Cons.IH[OF len] tk by simp
qed

lemma vmess_entry_of_trojan:
  "vmess_entry ext c (vmess_of_trojan t) d = trojan_entry ext c t d"
  by (simp add: vmess_of_trojan_def vmess_entry_def trojan_entry_def)

lemma vmess_of_trojan_fields:
  "vm_UID (vmess_of_trojan t) = tu_UID t"
  "vm_DeviceLimit (vmess_of_trojan t) = tu_DeviceLimit t"
  "vm_OnlineCount (vmess_of_trojan t) = tu_OnlineCount t"
  by (simp_all add: vmess_of_trojan_def)

lemma trojan_user_step_as_v2ray:
  "trojan_user_step ext c t = v2ray_user_step ext c (vmess_of_trojan t)"
  unfolding trojan_user_step_eq v2ray_user_step_eq vmess_entry_of_trojan vmess_of_trojan_fields
  by (rule refl)

lemma trojan_user_loop_as_v2ray:
  "trojan_user_loop ext c ts acc = v2ray_user_loop ext c (map (map_option vmess_of_trojan) ts) acc"
proof (induction ts arbitrary: c acc)
  case Nil
  show ?case by simp
next
  case (Cons x ts)
  show ?case
  proof (cases x)
    case None
    then show ?thesis by simp
  next
    case (Some t)
    then show ?thesis
      by (simp add: trojan_user_step_as_v2ray Cons.IH split: prod.splits option.splits)
  qed
qed

lemma ss_user_entry_eq: "ss_user_entry ext c u = ss_entry ext c u (DeviceLimit c)"
  by (simp add: ss_user_entry_def ss_entry_def)

text \<open>
  C2, as stated, fails on the Shadowsocks parser.  First input: no override on the client
  and a payload record with device limit 3 and no online session; the stated policy gives
  the limit 3, the parser gives 0.  Second input: the override 5 and a record reported with
  5 online sessions, nothing retained; the stated policy drops the user, the parser lists
  the user with the limit 5.
\<close>

theorem ss_policy_counterexample:
  "ParseSSUserListResponse (example_ext\<lparr>unmarshal_SSUsers := (\<lambda>_. Inr [Some example_ss])\<rparr>)
       example_client ''payload''
     = (Return [\<lparr>UID = 7, Email = [], Passwd = ''pw-7'', UUID = [], ui_DeviceLimit = 0,
                  ui_SpeedLimit = 0\<rparr>], example_client)
   \<and> ss_users_spec (example_ext\<lparr>unmarshal_SSUsers := (\<lambda>_. Inr [Some example_ss])\<rparr>)
       example_client [example_ss]
     = [\<lparr>UID = 7, Email = [], Passwd = ''pw-7'', UUID = [], ui_DeviceLimit = 3,
          ui_SpeedLimit = 0\<rparr>]
   \<and> ParseSSUserListResponse
       (example_ext\<lparr>unmarshal_SSUsers := (\<lambda>_. Inr [Some example_ss_online])\<rparr>)
       (example_client\<lparr>DeviceLimit := 5\<rparr>) ''payload''
     = (Return [\<lparr>UID = 7, Email = [], Passwd = ''pw-7'', UUID = [], ui_DeviceLimit = 5,
                  ui_SpeedLimit = 0\<rparr>], example_client\<lparr>DeviceLimit := 5\<rparr>)
   \<and> ss_users_spec (example_ext\<lparr>unmarshal_SSUsers := (\<lambda>_. Inr [Some example_ss_online])\<rparr>)
       (example_client\<lparr>DeviceLimit := 5\<rparr>) [example_ss_online]
     = []"
  by (simp add: ParseSSUserListResponse_def ss_user_entry_def example_ext_def example_client_def
      example_ss_def example_ss_online_def zero_UserInfo_def reconcile_def ss_entry_def
      retained_def Let_def word_sless_alt)

text \<open>
  C2, amended: the device-limit policy is the same in two of the three variants only.  For
  a Shadowsocks payload that decodes to the records \<open>us\<close>, the parser returns one entry per
  record, in payload order and none omitted; every entry carries the client's configured
  device limit as it is (also when it is 0), whatever the payload and the retained state
  hold; the client, and with it the retained state, is unchanged.  The Trojan loop is the
  V2ray loop on the same records, the password in the place of the UUID: these two share
  the base limit and the reconciliation of C1.
\<close>

theorem ss_user_list_policy:
  assumes "unmarshal_SSUsers ext userInfoResponse = Inr (map Some us)"
  shows "ParseSSUserListResponse ext c userInfoResponse
           = (Return (map (\<lambda>u. ss_entry ext c u (DeviceLimit c)) us), c)
         \<and> trojan_user_loop ext c ts acc
           = v2ray_user_loop ext c (map (map_option vmess_of_trojan) ts) acc"
  using assms ss_user_loop_map[of "replicate (length us) zero_UserInfo" 0 us ext c]
    trojan_user_loop_as_v2ray[of ext c ts acc]
  by (simp add: ParseSSUserListResponse_def ss_user_entry_eq[abs_def])

theorem ss_user_list_policy_witness:
  "ParseSSUserListResponse
       (example_ext\<lparr>unmarshal_SSUsers := (\<lambda>_. Inr [Some example_ss_online, Some example_ss])\<rparr>)
       (example_client\<lparr>DeviceLimit := 5, LastReportOnline := [7 \<mapsto> 3]\<rparr>) ''payload''
     = (Return [\<lparr>UID = 7, Email = [], Passwd = ''pw-7'', UUID = [], ui_DeviceLimit = 5,
                  ui_SpeedLimit = 0\<rparr>,
                \<lparr>UID = 7, Email = [], Passwd = ''pw-7'', UUID = [], ui_DeviceLimit = 5,
                  ui_SpeedLimit = 0\<rparr>],
        example_client\<lparr>DeviceLimit := 5, LastReportOnline := [7 \<mapsto> 3]\<rparr>)"
proof -
  let ?ext = "example_ext\<lparr>unmarshal_SSUsers := (\<lambda>_. Inr [Some example_ss_online, Some example_ss])\<rparr>"
  have d: "unmarshal_SSUsers ?ext ''payload'' = Inr (map Some [example_ss_online, example_ss])"
    by simp
  show ?thesis
    using ss_user_list_policy[OF d, of "example_client\<lparr>DeviceLimit := 5, LastReportOnline := [7 \<mapsto> 3]\<rparr>" "[]" "[]"]
    by (simp add: ss_entry_def example_ext_def example_client_def example_ss_def
          example_ss_online_def)
qed

section \<open>The online report and the retained state\<close>

lemma count_online_eq:
  "count_online us m uid =
     (let k = count_list (map ou_UID us) uid
      in if k = 0 then m uid
         else Some ((case m uid of None \<Rightarrow> 0 | Some n \<Rightarrow> n) + word_of_nat k))"
proof (induction us arbitrary: m)
  case Nil
  show ?case by simp
next
  case (Cons u us)
  show ?case
    by (simp add: Cons.IH Let_def split: option.splits)
qed

lemma count_online_empty: "count_online us Map.empty = session_counts us"
  by (rule ext) (simp add: count_online_eq session_counts_def Let_def)

lemma online_path_known:
  "known_node_type (NodeType c) \<Longrightarrow> \<exists>path. ReportNodeOnlineUsers_path c = Some path"
  by (auto simp add: known_node_type_def ReportNodeOnlineUsers_path_def)

lemma online_report_client:
  "ReportNodeOnlineUsers_path c = Some path \<Longrightarrow>
   fst (snd (ReportNodeOnlineUsers ext c sent onlineUserList))
     = c\<lparr>LastReportOnline := session_counts onlineUserList\<rparr>"
  by (simp add: ReportNodeOnlineUsers_def Let_def count_online_empty
      split: prod.splits sum.splits)

lemma online_report_sent:
  "ReportNodeOnlineUsers_path c = Some path \<Longrightarrow>
   snd (snd (ReportNodeOnlineUsers ext c sent onlineUserList))
     = sent @ [createCommonRequest ext (c\<lparr>LastReportOnline := session_counts onlineUserList\<rparr>)
                 sent POST path
                 (OnlineBody (map (\<lambda>user. \<lparr>no_UID = ou_UID user, no_IP = ou_IP user\<rparr>)
                                onlineUserList))]"
  by (simp add: ReportNodeOnlineUsers_def Let_def count_online_empty send_def
      split: prod.splits sum.splits)

lemma session_count_value:
  assumes "length us < 2 ^ 63"
  shows "sint (word_of_nat (count_list (map ou_UID us) uid) :: goint)
           = int (count_list (map ou_UID us) uid)"
proof -
  have "count_list (map ou_UID us) uid \<le> length (map ou_UID us)"
    by (rule count_le_length)
  then have b: "count_list (map ou_UID us) uid < 2 ^ 63"
    using assms by simp
  have c: "int (count_list (map ou_UID us) uid) < 2 ^ 63"
    using b by (metis of_nat_less_iff of_nat_numeral of_nat_power)
  show ?thesis
    using c by (simp add: signed_of_nat signed_take_bit_int_eq_self)
qed

text \<open>
  C3: on a client of one of the three known node types (any other type fails before the
  report is looked at), the online report leaves the client with \<open>LastReportOnline\<close>
  replaced by the session counts of the reported list, whatever it held before and whatever
  the panel answers: a user id maps to the number of its occurrences in the list, and an id
  that does not occur in the list has no entry.  The count is the number of occurrences as
  an \<open>int\<close> value; a slice has fewer than \<open>2 ^ 63\<close> elements.
\<close>

theorem online_report_replaces_state:
  assumes "known_node_type (NodeType c)"
    and "length onlineUserList < 2 ^ 63"
  shows "fst (snd (ReportNodeOnlineUsers ext c sent onlineUserList))
           = c\<lparr>LastReportOnline := session_counts onlineUserList\<rparr>
         \<and> (\<forall>uid. sint (word_of_nat (count_list (map ou_UID onlineUserList) uid) :: goint)
                   = int (count_list (map ou_UID onlineUserList) uid))"
proof -
  obtain path where p: "ReportNodeOnlineUsers_path c = Some path"
    using online_path_known[OF assms(1)] by blast
  show ?thesis
    using online_report_client[OF p] session_count_value[OF assms(2)] by simp
qed

text \<open>
  A client that retains 4 sessions for user 9 reports two sessions of user 7 and one of
  user 8: afterwards user 7 has the count 2 and user 9 has no entry.
\<close>

theorem online_report_replaces_state_witness:
  "LastReportOnline
     (fst (snd (ReportNodeOnlineUsers example_ext
                  (example_client\<lparr>LastReportOnline := [9 \<mapsto> 4]\<rparr>) [] example_sessions))) 7
     = Some 2
   \<and> LastReportOnline
     (fst (snd (ReportNodeOnlineUsers example_ext
                  (example_client\<lparr>LastReportOnline := [9 \<mapsto> 4]\<rparr>) [] example_sessions))) 9
     = None"
proof -
  have k: "known_node_type (NodeType (example_client\<lparr>LastReportOnline := [9 \<mapsto> 4]\<rparr>))"
    by (simp add: known_node_type_def example_client_def)
  have l: "length example_sessions < 2 ^ 63"
    by (simp add: example_sessions_def)
  show ?thesis
    using online_report_replaces_state[OF k l, of example_ext "[]"]
    by (simp add: session_counts_def example_sessions_def)
qed

text \<open>
  C10: when the online report returns an error of the transport or of the envelope check,
  the request has been sent, built by the client whose \<open>LastReportOnline\<close> already holds
  the session counts of the new report, and the client is left in that state: the update is
  not undone.
\<close>

theorem online_report_state_on_failure:
  assumes "fst (ReportNodeOnlineUsers ext c sent onlineUserList) = Error e"
    and "is_transport_or_envelope_error e"
  shows "fst (snd (ReportNodeOnlineUsers ext c sent onlineUserList))
           = c\<lparr>LastReportOnline := session_counts onlineUserList\<rparr>
         \<and> (\<exists>path. ReportNodeOnlineUsers_path c = Some path
              \<and> snd (snd (ReportNodeOnlineUsers ext c sent onlineUserList))
                  = sent @ [createCommonRequest ext
                              (c\<lparr>LastReportOnline := session_counts onlineUserList\<rparr>)
                              sent POST path
                              (OnlineBody (map (\<lambda>user. \<lparr>no_UID = ou_UID user, no_IP = ou_IP user\<rparr>)
                                             onlineUserList))])"
proof (cases "ReportNodeOnlineUsers_path c")
  case None
  then show ?thesis
    using assms by (auto simp add: ReportNodeOnlineUsers_def)
next
  case (Some path)
  then show ?thesis
    using online_report_client[OF Some] online_report_sent[OF Some] by simp
qed

text \<open>
  The panel cannot be reached: the report fails with the transport error, and the client
  that retained 4 sessions for user 9 now retains the new report's counts.
\<close>

theorem online_report_state_on_failure_witness:
  "fst (ReportNodeOnlineUsers (example_ext\<lparr>panel := (\<lambda>sent rq. TransportError ''timeout'')\<rparr>)
          (example_client\<lparr>LastReportOnline := [9 \<mapsto> 4]\<rparr>) [] example_sessions)
     = Error (RequestFailed ''https://panel.example/api/v2ray/v1/nodeOnline/7'' ''timeout'')
   \<and> fst (snd (ReportNodeOnlineUsers (example_ext\<lparr>panel := (\<lambda>sent rq. TransportError ''timeout'')\<rparr>)
          (example_client\<lparr>LastReportOnline := [9 \<mapsto> 4]\<rparr>) [] example_sessions))
     = example_client\<lparr>LastReportOnline := session_counts example_sessions\<rparr>"
proof -
  let ?ext = "example_ext\<lparr>panel := (\<lambda>sent rq. TransportError ''timeout'')\<rparr>"
  let ?c = "example_client\<lparr>LastReportOnline := [9 \<mapsto> 4]\<rparr>"
  have e: "fst (ReportNodeOnlineUsers ?ext ?c [] example_sessions)
             = Error (RequestFailed ''https://panel.example/api/v2ray/v1/nodeOnline/7'' ''timeout'')"
    by (simp add: ReportNodeOnlineUsers_def ReportNodeOnlineUsers_path_def Let_def send_def
          parseResponse_def assembleURL_def example_client_def example_ext_def fmt_d_def
          dec_int_def dec_nat.simps digit_char_def)
  have t: "is_transport_or_envelope_error
             (RequestFailed ''https://panel.example/api/v2ray/v1/nodeOnline/7'' ''timeout'')"
    by simp
  show ?thesis
    using online_report_state_on_failure[OF e t] e by simp
qed

section \<open>Rule aggregation\<close>

lemma rule_loop_compiles:
  "\<forall>r\<in>set rs. pr_Type r = ''reg'' \<longrightarrow> regexp_compiles ext (pr_Pattern r) \<Longrightarrow>
   rule_loop ext rs ruleList = Return (ruleList @ rules_of_type ''reg'' rs)"
  by (induction rs arbitrary: ruleList) (simp_all add: rules_of_type_def)

lemma GetNodeRule_decoded:
  assumes "GetNodeRule_path c = Some path"
    and "parseResponse ext c (panel ext sent (createCommonRequest ext c sent GET path NoBody)) path
           = Inr response"
    and "unmarshal_NodeRule ext (Data response) = Inr rl"
  shows "fst (GetNodeRule ext c sent) =
           (if Mode rl \<noteq> ''reject'' then Return (LocalRuleList c)
            else rule_loop ext (Rules rl) (LocalRuleList c))"
  using assms by (simp add: GetNodeRule_def send_def Let_def)

lemma rule_loop_prefix:
  "\<forall>q\<in>set pre. pr_Type q = ''reg'' \<longrightarrow> regexp_compiles ext (pr_Pattern q) \<Longrightarrow>
   rule_loop ext (pre @ rest) ruleList = rule_loop ext rest (ruleList @ rules_of_type ''reg'' pre)"
  by (induction pre arbitrary: ruleList) (simp_all add: rules_of_type_def)

text \<open>
  C4: the rule fetch on a rule set in \<open>reject\<close> mode that holds a rule of type \<open>reg\<close> whose
  pattern does not compile, the rules of type \<open>reg\<close> before it compiling.  The pattern is
  handed to \<open>regexp.MustCompile\<close>: the operation does not return an error, it panics.
\<close>

theorem rule_fetch_panics:
  assumes "GetNodeRule_path c = Some path"
    and "parseResponse ext c (panel ext sent (createCommonRequest ext c sent GET path NoBody)) path
           = Inr response"
    and "unmarshal_NodeRule ext (Data response) = Inr rl"
    and "Mode rl = ''reject''"
    and "Rules rl = pre @ r # post"
    and "\<forall>q\<in>set pre. pr_Type q = ''reg'' \<longrightarrow> regexp_compiles ext (pr_Pattern q)"
    and "pr_Type r = ''reg''"
    and "\<not> regexp_compiles ext (pr_Pattern r)"
  shows "fst (GetNodeRule ext c sent) = Panic (RegexpMustCompile (pr_Pattern r))"
  using GetNodeRule_decoded[OF assms(1,2,3)] assms(4,5,7,8) rule_loop_prefix[OF assms(6)]
  by simp

text \<open>
  The panel sends, in \<open>reject\<close> mode, a rule of type \<open>reg\<close> with the pattern \<open>(\<close>, which has
  no closing parenthesis.
\<close>

theorem rule_fetch_panics_witness:
  "fst (GetNodeRule (example_ext\<lparr>unmarshal_NodeRule := (\<lambda>_. Inr (example_rules ''reject'' ''reg'' ''(''))\<rparr>)
         example_client []) = Panic (RegexpMustCompile ''('')"
proof -
  let ?ext = "example_ext\<lparr>unmarshal_NodeRule := (\<lambda>_. Inr (example_rules ''reject'' ''reg'' ''(''))\<rparr>"
  let ?r = "\<lparr>pr_ID = 1, pr_Type = ''reg'', pr_Pattern = ''(''\<rparr>"
  have p: "GetNodeRule_path example_client = Some ''/api/v2ray/v1/nodeRule/7''"
    by (simp add: GetNodeRule_path_def example_client_def fmt_d_def dec_int_def dec_nat.simps
          digit_char_def)
  have q: "parseResponse ?ext example_client
             (panel ?ext [] (createCommonRequest ?ext example_client [] GET
                               ''/api/v2ray/v1/nodeRule/7'' NoBody))
             ''/api/v2ray/v1/nodeRule/7'' = Inr (success_envelope [])"
    by (simp add: parseResponse_def example_ext_def success_envelope_def)
  have d: "unmarshal_NodeRule ?ext (Data (success_envelope [])) = Inr (example_rules ''reject'' ''reg'' ''('')"
    by simp
  have m: "Mode (example_rules ''reject'' ''reg'' ''('') = ''reject''"
    by (simp add: example_rules_def)
  have i: "Rules (example_rules ''reject'' ''reg'' ''('')
             = [] @ ?r # [\<lparr>pr_ID = 2, pr_Type = ''domain'', pr_Pattern = ''example.org''\<rparr>]"
    by (simp add: example_rules_def)
  have a: "\<forall>q\<in>set []. pr_Type q = ''reg'' \<longrightarrow> regexp_compiles ?ext (pr_Pattern q)"
    by simp
  have t: "pr_Type ?r = ''reg''" by simp
  have n: "\<not> regexp_compiles ?ext (pr_Pattern ?r)"
    by (simp add: example_ext_def)
  show ?thesis
    using rule_fetch_panics[OF p q d m i a t n] by simp
qed


text \<open>
  C6, as stated, fails on a rule of type \<open>regex\<close>: in \<open>reject\<close> mode the fetch returns the
  local rules alone, where the claim appends the panel's rule 1.
\<close>

theorem rule_type_counterexample:
  "fst (GetNodeRule
          (example_ext\<lparr>unmarshal_NodeRule := (\<lambda>_. Inr (example_rules ''reject'' ''regex'' ''abc''))\<rparr>)
          (example_client\<lparr>LocalRuleList := example_local\<rparr>) [])
     = Return example_local
   \<and> example_local @ rules_of_type ''regex'' (Rules (example_rules ''reject'' ''regex'' ''abc''))
     = example_local @ [\<lparr>rule_ID = 1, rule_Pattern = Compiled ''abc''\<rparr>]
   \<and> fst (GetNodeRule
          (example_ext\<lparr>unmarshal_NodeRule := (\<lambda>_. Inr (example_rules ''reject'' ''regex'' ''abc''))\<rparr>)
          (example_client\<lparr>LocalRuleList := example_local\<rparr>) [])
     \<noteq> Return (example_local
                @ rules_of_type ''regex'' (Rules (example_rules ''reject'' ''regex'' ''abc'')))"
  by (simp add: GetNodeRule_def GetNodeRule_path_def send_def parseResponse_def Let_def
      example_ext_def example_client_def example_rules_def success_envelope_def
      rules_of_type_def)

text \<open>
  C6, amended: for a decoded panel rule set whose mode is not \<open>reject\<close> the fetch returns
  exactly the local rule list, whatever rules the panel supplies; in \<open>reject\<close> mode, when
  the pattern of every rule of type \<open>reg\<close> compiles, it returns the local list followed by
  the panel's rules of type \<open>reg\<close>, in the panel's order, each compiled and with the panel's
  id; rules of any other type are passed over.
\<close>

theorem rule_aggregation:
  assumes "GetNodeRule_path c = Some path"
    and "parseResponse ext c (panel ext sent (createCommonRequest ext c sent GET path NoBody)) path
           = Inr response"
    and "unmarshal_NodeRule ext (Data response) = Inr rl"
    and "Mode rl = ''reject'' \<Longrightarrow>
         \<forall>r\<in>set (Rules rl). pr_Type r = ''reg'' \<longrightarrow> regexp_compiles ext (pr_Pattern r)"
  shows "fst (GetNodeRule ext c sent) =
           (if Mode rl \<noteq> ''reject'' then Return (LocalRuleList c)
            else Return (LocalRuleList c @ rules_of_type ''reg'' (Rules rl)))"
proof (cases "Mode rl = ''reject''")
  case True
  then show ?thesis
    using GetNodeRule_decoded[OF assms(1,2,3)] rule_loop_compiles[OF assms(4)[OF True]] by simp
next
  case False
  then show ?thesis
    using GetNodeRule_decoded[OF assms(1,2,3)] by simp
qed

text \<open>
  The local list holds one rule; the panel sends a rule of type \<open>reg\<close> and one of type
  \<open>domain\<close>, once in \<open>reject\<close> mode and once in \<open>allow\<close> mode.
\<close>

theorem rule_aggregation_witness:
  "fst (GetNodeRule
          (example_ext\<lparr>unmarshal_NodeRule := (\<lambda>_. Inr (example_rules ''reject'' ''reg'' ''abc''))\<rparr>)
          (example_client\<lparr>LocalRuleList := example_local\<rparr>) [])
     = Return [\<lparr>rule_ID = -1, rule_Pattern = Compiled ''torrent''\<rparr>,
               \<lparr>rule_ID = 1, rule_Pattern = Compiled ''abc''\<rparr>]
   \<and> fst (GetNodeRule
          (example_ext\<lparr>unmarshal_NodeRule := (\<lambda>_. Inr (example_rules ''allow'' ''reg'' ''abc''))\<rparr>)
          (example_client\<lparr>LocalRuleList := example_local\<rparr>) [])
     = Return [\<lparr>rule_ID = -1, rule_Pattern = Compiled ''torrent''\<rparr>]"
proof -
  let ?c = "example_client\<lparr>LocalRuleList := example_local\<rparr>"
  let ?path = "''/api/v2ray/v1/nodeRule/7''"
  let ?e1 = "example_ext\<lparr>unmarshal_NodeRule := (\<lambda>_. Inr (example_rules ''reject'' ''reg'' ''abc''))\<rparr>"
  let ?e2 = "example_ext\<lparr>unmarshal_NodeRule := (\<lambda>_. Inr (example_rules ''allow'' ''reg'' ''abc''))\<rparr>"
  have p: "GetNodeRule_path ?c = Some ?path"
    by (simp add: GetNodeRule_path_def example_client_def fmt_d_def dec_int_def dec_nat.simps
          digit_char_def)
  have q1: "parseResponse ?e1 ?c (panel ?e1 [] (createCommonRequest ?e1 ?c [] GET ?path NoBody))
              ?path = Inr (success_envelope [])"
    by (simp add: parseResponse_def example_ext_def success_envelope_def)
  have q2: "parseResponse ?e2 ?c (panel ?e2 [] (createCommonRequest ?e2 ?c [] GET ?path NoBody))
              ?path = Inr (success_envelope [])"
    by (simp add: parseResponse_def example_ext_def success_envelope_def)
  have d1: "unmarshal_NodeRule ?e1 (Data (success_envelope []))
              = Inr (example_rules ''reject'' ''reg'' ''abc'')"
    by simp
  have d2: "unmarshal_NodeRule ?e2 (Data (success_envelope []))
              = Inr (example_rules ''allow'' ''reg'' ''abc'')"
    by simp
  have a1: "\<forall>r\<in>set (Rules (example_rules ''reject'' ''reg'' ''abc'')).
              pr_Type r = ''reg'' \<longrightarrow> regexp_compiles ?e1 (pr_Pattern r)"
    by (simp add: example_rules_def example_ext_def)
  have a2: "Mode (example_rules ''allow'' ''reg'' ''abc'') = ''reject'' \<Longrightarrow>
            \<forall>r\<in>set (Rules (example_rules ''allow'' ''reg'' ''abc'')).
              pr_Type r = ''reg'' \<longrightarrow> regexp_compiles ?e2 (pr_Pattern r)"
    by (simp add: example_rules_def)
  show ?thesis
    using rule_aggregation[OF p q1 d1 a1] rule_aggregation[OF p q2 d2 a2]
    by (simp add: example_rules_def rules_of_type_def example_local_def example_client_def)
qed

section \<open>Decoding the user list\<close>



section \<open>Endpoints of the operations\<close>

lemma path_template:
  "GetNodeInfo_path c = map_option (\<lambda>seg. endpoint seg ''node'' (NodeID c)) (protocol_segment (NodeType c))"
  "GetUserList_path c = map_option (\<lambda>seg. endpoint seg ''userList'' (NodeID c)) (protocol_segment (NodeType c))"
  "ReportNodeStatus_path c = map_option (\<lambda>seg. endpoint seg ''nodeStatus'' (NodeID c)) (protocol_segment (NodeType c))"
  "ReportNodeOnlineUsers_path c = map_option (\<lambda>seg. endpoint seg ''nodeOnline'' (NodeID c)) (protocol_segment (NodeType c))"
  "ReportUserTraffic_path c = map_option (\<lambda>seg. endpoint seg ''userTraffic'' (NodeID c)) (protocol_segment (NodeType c))"
  "GetNodeRule_path c = map_option (\<lambda>seg. endpoint seg ''nodeRule'' (NodeID c)) (protocol_segment (NodeType c))"
  "ReportIllegal_path c = map_option (\<lambda>seg. endpoint seg ''trigger'' (NodeID c)) (protocol_segment (NodeType c))"
  by (simp_all add: GetNodeInfo_path_def GetUserList_path_def ReportNodeStatus_path_def
      ReportNodeOnlineUsers_path_def ReportUserTraffic_path_def GetNodeRule_path_def
      ReportIllegal_path_def protocol_segment_def endpoint_def)

lemma new_requests_append:
  "new_requests sent (sent @ new) = Some (map (\<lambda>rq. (rq_method rq, rq_path rq)) new)"
  by (simp add: new_requests_def)

lemma GetNodeInfo_sent:
  "GetNodeInfo_path c = Some path \<Longrightarrow>
   new_requests sent (snd (GetNodeInfo ext c sent)) = Some [(GET, path)]"
  by (simp add: GetNodeInfo_def send_def Let_def new_requests_def createCommonRequest_def
      split: sum.splits option.splits)

lemma GetUserList_sent:
  "GetUserList_path c = Some path \<Longrightarrow>
   new_requests sent (snd (snd (GetUserList ext c sent))) = Some [(GET, path)]"
  by (simp add: GetUserList_def send_def Let_def new_requests_def createCommonRequest_def
      split: sum.splits option.splits prod.splits outcome.splits)

lemma ReportNodeStatus_sent:
  "ReportNodeStatus_path c = Some path \<Longrightarrow>
   new_requests sent (snd (ReportNodeStatus ext c sent nodeStatus)) = Some [(POST, path)]"
  by (simp add: ReportNodeStatus_def send_def Let_def new_requests_def createCommonRequest_def
      split: sum.splits)

lemma ReportNodeOnlineUsers_sent:
  "ReportNodeOnlineUsers_path c = Some path \<Longrightarrow>
   new_requests sent (snd (snd (ReportNodeOnlineUsers ext c sent onlineUserList)))
     = Some [(POST, path)]"
  by (simp add: ReportNodeOnlineUsers_def send_def Let_def new_requests_def
      createCommonRequest_def split: sum.splits)

lemma ReportUserTraffic_sent:
  "ReportUserTraffic_path c = Some path \<Longrightarrow>
   new_requests sent (snd (ReportUserTraffic ext c sent userTraffic)) = Some [(POST, path)]"
  by (simp add: ReportUserTraffic_def send_def Let_def new_requests_def createCommonRequest_def
      split: sum.splits)

lemma GetNodeRule_sent:
  "GetNodeRule_path c = Some path \<Longrightarrow>
   new_requests sent (snd (GetNodeRule ext c sent)) = Some [(GET, path)]"
  by (simp add: GetNodeRule_def send_def Let_def new_requests_def createCommonRequest_def
      split: sum.splits)

lemma illegal_loop_log:
  "\<exists>new. snd (illegal_loop ext c path rs sent) = sent @ new
         \<and> length new \<le> length rs
         \<and> map (\<lambda>rq. (rq_method rq, rq_path rq)) new = replicate (length new) (POST, path)"
proof (induction rs arbitrary: sent)
  case Nil
  show ?case by simp
next
  case (Cons r rest)
  let ?rq = "createCommonRequest ext c sent POST path
               (IllegalBody \<lparr>ir_RuleID = dr_RuleID r, ir_UID = dr_UID r,
                             ir_Reason = ''XrayR cannot save reason''\<rparr>)"
  have m: "(rq_method ?rq, rq_path ?rq) = (POST, path)"
    by (simp add: createCommonRequest_def)
  show ?case
  proof (cases "parseResponse ext c (panel ext sent ?rq) path")
    case (Inl e)
    then have "snd (illegal_loop ext c path (r # rest) sent) = sent @ [?rq]"
      by (simp add: send_def Let_def)
    then show ?thesis
      using m by (intro exI[of _ "[?rq]"]) simp
  next
    case (Inr response)
    obtain new where n: "snd (illegal_loop ext c path rest (sent @ [?rq])) = (sent @ [?rq]) @ new"
      "length new \<le> length rest"
      "map (\<lambda>rq. (rq_method rq, rq_path rq)) new = replicate (length new) (POST, path)"
      using Cons.IH[of "sent @ [?rq]"] by blast
    have "snd (illegal_loop ext c path (r # rest) sent) = sent @ (?rq # new)"
      using Inr n(1) by (simp add: send_def Let_def)
    then show ?thesis
      using m n(2,3) by (intro exI[of _ "?rq # new"]) simp
  qed
qed

lemma ReportIllegal_sent:
  assumes "ReportIllegal_path c = Some path"
  shows "\<exists>k\<le>length rs. new_requests sent (snd (ReportIllegal ext c sent rs))
           = Some (replicate k (POST, path))"
proof -
  obtain new where n: "snd (illegal_loop ext c path rs sent) = sent @ new"
      "length new \<le> length rs"
      "map (\<lambda>rq. (rq_method rq, rq_path rq)) new = replicate (length new) (POST, path)"
    using illegal_loop_log[of ext c path rs sent] by blast
  have "new_requests sent (snd (ReportIllegal ext c sent rs))
          = Some (replicate (length new) (POST, path))"
    using assms n(1,3) by (simp add: ReportIllegal_def new_requests_append)
  then show ?thesis
    using n(2) by blast
qed


text \<open>
  C8: the seven operations of the client.  On a node type that is none of \<open>V2ray\<close>,
  \<open>Trojan\<close> and \<open>Shadowsocks\<close>, each returns the unsupported-node-type error with the
  request log, and the client, as they were: no request is issued.  On a known node type
  every request an operation issues goes to \<open>/api/{segment}/v1/{operation}/{nodeId}\<close>, the
  segment being \<open>v2ray\<close>, \<open>trojan\<close> or \<open>ss\<close>; each operation issues one request, the
  violation report at most one per violation.
\<close>

theorem facade_endpoints:
  "(case protocol_segment (NodeType c) of
      None \<Rightarrow>
        GetNodeInfo ext c sent = (Error (UnsupportedNodeType (NodeType c)), sent)
        \<and> GetUserList ext c sent = (Error (UnsupportedNodeType (NodeType c)), c, sent)
        \<and> ReportNodeStatus ext c sent nodeStatus = (Error (UnsupportedNodeType (NodeType c)), sent)
        \<and> ReportNodeOnlineUsers ext c sent onlineUserList
            = (Error (UnsupportedNodeType (NodeType c)), c, sent)
        \<and> ReportUserTraffic ext c sent userTraffic = (Error (UnsupportedNodeType (NodeType c)), sent)
        \<and> GetNodeRule ext c sent = (Error (UnsupportedNodeType (NodeType c)), sent)
        \<and> ReportIllegal ext c sent detectResultList = (Error (UnsupportedNodeType (NodeType c)), sent)
    | Some seg \<Rightarrow>
        new_requests sent (snd (GetNodeInfo ext c sent))
          = Some [(GET, endpoint seg ''node'' (NodeID c))]
        \<and> new_requests sent (snd (snd (GetUserList ext c sent)))
          = Some [(GET, endpoint seg ''userList'' (NodeID c))]
        \<and> new_requests sent (snd (ReportNodeStatus ext c sent nodeStatus))
          = Some [(POST, endpoint seg ''nodeStatus'' (NodeID c))]
        \<and> new_requests sent (snd (snd (ReportNodeOnlineUsers ext c sent onlineUserList)))
          = Some [(POST, endpoint seg ''nodeOnline'' (NodeID c))]
        \<and> new_requests sent (snd (ReportUserTraffic ext c sent userTraffic))
          = Some [(POST, endpoint seg ''userTraffic'' (NodeID c))]
        \<and> new_requests sent (snd (GetNodeRule ext c sent))
          = Some [(GET, endpoint seg ''nodeRule'' (NodeID c))]
        \<and> (\<exists>k\<le>length detectResultList.
              new_requests sent (snd (ReportIllegal ext c sent detectResultList))
                = Some (replicate k (POST, endpoint seg ''trigger'' (NodeID c)))))"
proof (cases "protocol_segment (NodeType c)")
  case None
  then show ?thesis
    by (simp add: path_template GetNodeInfo_def GetUserList_def ReportNodeStatus_def
        ReportNodeOnlineUsers_def ReportUserTraffic_def GetNodeRule_def ReportIllegal_def)
next
  case (Some seg)
  have p: "GetNodeInfo_path c = Some (endpoint seg ''node'' (NodeID c))"
    "GetUserList_path c = Some (endpoint seg ''userList'' (NodeID c))"
    "ReportNodeStatus_path c = Some (endpoint seg ''nodeStatus'' (NodeID c))"
    "ReportNodeOnlineUsers_path c = Some (endpoint seg ''nodeOnline'' (NodeID c))"
    "ReportUserTraffic_path c = Some (endpoint seg ''userTraffic'' (NodeID c))"
    "GetNodeRule_path c = Some (endpoint seg ''nodeRule'' (NodeID c))"
    "ReportIllegal_path c = Some (endpoint seg ''trigger'' (NodeID c))"
    using Some by (simp_all add: path_template)
  show ?thesis
    using Some GetNodeInfo_sent[OF p(1)] GetUserList_sent[OF p(2)] ReportNodeStatus_sent[OF p(3)]
      ReportNodeOnlineUsers_sent[OF p(4)] ReportUserTraffic_sent[OF p(5)] GetNodeRule_sent[OF p(6)]
      ReportIllegal_sent[OF p(7)]
    by simp
qed

text \<open>
  A client of the unknown type \<open>Vmess\<close>, and clients of node 7 of type \<open>Shadowsocks\<close> and
  \<open>Trojan\<close>.
\<close>

theorem facade_endpoints_witness:
  "GetNodeInfo example_ext (example_client\<lparr>NodeType := ''Vmess''\<rparr>) []
     = (Error (UnsupportedNodeType ''Vmess''), [])
   \<and> ReportIllegal example_ext (example_client\<lparr>NodeType := ''Vmess''\<rparr>) []
       [\<lparr>dr_UID = 7, dr_RuleID = 1\<rparr>]
     = (Error (UnsupportedNodeType ''Vmess''), [])
   \<and> new_requests [] (snd (GetNodeInfo example_ext (example_client\<lparr>NodeType := ''Shadowsocks''\<rparr>) []))
     = Some [(GET, ''/api/ss/v1/node/7'')]
   \<and> new_requests [] (snd (ReportUserTraffic example_ext (example_client\<lparr>NodeType := ''Trojan''\<rparr>) []
                              [\<lparr>ut_UID = 7, ut_Upload = 10, ut_Download = 20\<rparr>]))
     = Some [(POST, ''/api/trojan/v1/userTraffic/7'')]"
proof -
  have s1: "protocol_segment (NodeType (example_client\<lparr>NodeType := ''Vmess''\<rparr>)) = None"
    by (simp add: protocol_segment_def)
  have s2: "protocol_segment (NodeType (example_client\<lparr>NodeType := ''Shadowsocks''\<rparr>)) = Some ''ss''"
    by (simp add: protocol_segment_def)
  have s3: "protocol_segment (NodeType (example_client\<lparr>NodeType := ''Trojan''\<rparr>)) = Some ''trojan''"
    by (simp add: protocol_segment_def)
  have e: "endpoint ''ss'' ''node'' 7 = ''/api/ss/v1/node/7''"
    "endpoint ''trojan'' ''userTraffic'' 7 = ''/api/trojan/v1/userTraffic/7''"
    by (simp_all add: endpoint_def fmt_d_def dec_int_def dec_nat.simps digit_char_def)
  have n: "NodeID (example_client\<lparr>NodeType := t\<rparr>) = 7" for t
    by (simp add: example_client_def)
  show ?thesis
    using facade_endpoints[where c = "example_client\<lparr>NodeType := ''Vmess''\<rparr>"
            and ext = example_ext and sent = "[]" and nodeStatus = example_status
            and onlineUserList = "[]" and userTraffic = "[]"
            and detectResultList = "[\<lparr>dr_UID = 7, dr_RuleID = 1\<rparr>]"]
      facade_endpoints[where c = "example_client\<lparr>NodeType := ''Shadowsocks''\<rparr>"
            and ext = example_ext and sent = "[]" and nodeStatus = example_status
            and onlineUserList = "[]" and userTraffic = "[]" and detectResultList = "[]"]
      facade_endpoints[where c = "example_client\<lparr>NodeType := ''Trojan''\<rparr>"
            and ext = example_ext and sent = "[]" and nodeStatus = example_status
            and onlineUserList = "[]"
            and userTraffic = "[\<lparr>ut_UID = 7, ut_Upload = 10, ut_Download = 20\<rparr>]"
            and detectResultList = "[]"]
    unfolding s1 s2 s3 n by (simp add: e)
qed

section \<open>The violation report\<close>

lemma illegal_requests_shape:
  "map rq_body (illegal_requests ext c path sent rs) = map (\<lambda>r. IllegalBody (illegal_report r)) rs
   \<and> list_all (\<lambda>rq. rq_method rq = POST \<and> rq_path rq = path) (illegal_requests ext c path sent rs)"
  by (induction rs arbitrary: sent) (simp_all add: createCommonRequest_def)

lemma illegal_requests_length: "length (illegal_requests ext c path sent rs) = length rs"
  by (induction rs arbitrary: sent) simp_all

lemma reply_error_0:
  "reply_error ext c path sent (rq # reqs) 0 =
     (case parseResponse ext c (panel ext sent rq) path of Inl e \<Rightarrow> Some e | Inr response \<Rightarrow> None)"
  by (simp add: reply_error_def)

lemma reply_error_Suc:
  "reply_error ext c path sent (rq # reqs) (Suc j) = reply_error ext c path (sent @ [rq]) reqs j"
  by (simp add: reply_error_def)

lemma illegal_loop_all_ok:
  "\<forall>j<length rs. reply_error ext c path sent (illegal_requests ext c path sent rs) j = None \<Longrightarrow>
   illegal_loop ext c path rs sent = (Return (), sent @ illegal_requests ext c path sent rs)"
proof (induction rs arbitrary: sent)
  case Nil
  show ?case by simp
next
  case (Cons r rest)
  let ?rq = "createCommonRequest ext c sent POST path (IllegalBody (illegal_report r))"
  have h0: "reply_error ext c path sent (?rq # illegal_requests ext c path (sent @ [?rq]) rest) 0 = None"
    using Cons.prems by simp
  have hs: "\<forall>j<length rest. reply_error ext c path (sent @ [?rq])
              (illegal_requests ext c path (sent @ [?rq]) rest) j = None"
    using Cons.prems by (simp add: All_less_Suc2 reply_error_Suc)
  obtain response where ok: "parseResponse ext c (panel ext sent ?rq) path = Inr response"
    using h0 by (auto simp add: reply_error_0 split: sum.splits)
  show ?case
    using Cons.IH[OF hs] ok by (simp add: send_def illegal_report_def Let_def)
qed

lemma illegal_loop_first_failure:
  "j < length rs \<Longrightarrow>
   \<forall>i<j. reply_error ext c path sent (illegal_requests ext c path sent rs) i = None \<Longrightarrow>
   reply_error ext c path sent (illegal_requests ext c path sent rs) j = Some e \<Longrightarrow>
   illegal_loop ext c path rs sent
     = (Error e, sent @ take (Suc j) (illegal_requests ext c path sent rs))"
proof (induction rs arbitrary: sent j)
  case Nil
  then show ?case by simp
next
  case (Cons r rest)
  let ?rq = "createCommonRequest ext c sent POST path (IllegalBody (illegal_report r))"
  show ?case
  proof (cases j)
    case 0
    then have "parseResponse ext c (panel ext sent ?rq) path = Inl e"
      using Cons.prems(3) by (auto simp add: reply_error_0 split: sum.splits)
    then show ?thesis
      using 0 by (simp add: send_def illegal_report_def Let_def)
  next
    case (Suc k)
    have k: "k < length rest" using Cons.prems(1) Suc by simp
    have h0: "reply_error ext c path sent (?rq # illegal_requests ext c path (sent @ [?rq]) rest) 0 = None"
      using Cons.prems(2) Suc by simp
    obtain response where ok: "parseResponse ext c (panel ext sent ?rq) path = Inr response"
      using h0 by (auto simp add: reply_error_0 split: sum.splits)
    have hs: "\<forall>i<k. reply_error ext c path (sent @ [?rq])
                (illegal_requests ext c path (sent @ [?rq]) rest) i = None"
      using Cons.prems(2) Suc by (simp add: All_less_Suc2 reply_error_Suc)
    have hk: "reply_error ext c path (sent @ [?rq])
                (illegal_requests ext c path (sent @ [?rq]) rest) k = Some e"
      using Cons.prems(3) Suc by (simp add: reply_error_Suc)
    show ?thesis
      using Cons.IH[OF k hs hk] ok Suc by (simp add: send_def illegal_report_def Let_def)
  qed
qed


text \<open>
  C9: the violation report on a client whose node type resolves to \<open>path\<close>.  The requests
  for the violations are separate \<open>POST\<close>s to that path, one per violation and in input
  order, each carrying its violation.  When no reply gives an error, all of them are sent
  and the operation returns success.  When the reply to request \<open>j\<close> is the first to give
  an error, the operation returns that error; the log then holds the requests up to and
  including number \<open>j\<close>: those sent before the failure stay sent, the later ones are not
  sent.
\<close>

theorem violation_reports_in_order:
  assumes "ReportIllegal_path c = Some path"
  shows "map rq_body (illegal_requests ext c path sent rs)
           = map (\<lambda>r. IllegalBody (illegal_report r)) rs
         \<and> list_all (\<lambda>rq. rq_method rq = POST \<and> rq_path rq = path)
              (illegal_requests ext c path sent rs)
         \<and> ((\<forall>j<length rs. reply_error ext c path sent (illegal_requests ext c path sent rs) j = None)
              \<longrightarrow> ReportIllegal ext c sent rs
                    = (Return (), sent @ illegal_requests ext c path sent rs))
         \<and> (\<forall>j e. j < length rs
                \<and> (\<forall>i<j. reply_error ext c path sent (illegal_requests ext c path sent rs) i = None)
                \<and> reply_error ext c path sent (illegal_requests ext c path sent rs) j = Some e
              \<longrightarrow> ReportIllegal ext c sent rs
                    = (Error e, sent @ take (Suc j) (illegal_requests ext c path sent rs)))"
  using assms illegal_requests_shape[of ext c path sent rs]
    illegal_loop_all_ok[of rs ext c path sent]
    illegal_loop_first_failure[of _ rs ext c path sent]
  by (simp add: ReportIllegal_def)

text \<open>
  Three violations: a panel that accepts everything, and one that answers the second
  request with status 503.
\<close>

theorem violation_reports_in_order_witness:
  "ReportIllegal example_ext example_client [] example_violations
     = (Return (), illegal_requests example_ext example_client ''/api/v2ray/v1/trigger/7'' []
                     example_violations)
   \<and> ReportIllegal (example_ext\<lparr>panel := failing_panel\<rparr>) example_client [] example_violations
     = (Error (RequestFailedStatus ''https://panel.example/api/v2ray/v1/trigger/7'' ''overloaded''),
        take 2 (illegal_requests (example_ext\<lparr>panel := failing_panel\<rparr>) example_client
                  ''/api/v2ray/v1/trigger/7'' [] example_violations))
   \<and> map rq_body (take 2 (illegal_requests (example_ext\<lparr>panel := failing_panel\<rparr>) example_client
                  ''/api/v2ray/v1/trigger/7'' [] example_violations))
     = [IllegalBody \<lparr>ir_RuleID = 1, ir_UID = 7, ir_Reason = ''XrayR cannot save reason''\<rparr>,
        IllegalBody \<lparr>ir_RuleID = 2, ir_UID = 8, ir_Reason = ''XrayR cannot save reason''\<rparr>]"
proof -
  let ?path = "''/api/v2ray/v1/trigger/7''"
  let ?bad = "example_ext\<lparr>panel := failing_panel\<rparr>"
  have p: "ReportIllegal_path example_client = Some ?path"
    by (simp add: ReportIllegal_path_def example_client_def fmt_d_def dec_int_def dec_nat.simps
          digit_char_def)
  have len: "length example_violations = 3"
    by (simp add: example_violations_def)
  have ok: "\<forall>j<length example_violations.
              reply_error example_ext example_client ?path []
                (illegal_requests example_ext example_client ?path [] example_violations) j = None"
    by (simp add: reply_error_def parseResponse_def example_ext_def success_envelope_def)
  have f0: "\<forall>i<1. reply_error ?bad example_client ?path []
                (illegal_requests ?bad example_client ?path [] example_violations) i = None"
    by (simp add: reply_error_def parseResponse_def failing_panel_def success_envelope_def
          example_violations_def)
  have f1: "reply_error ?bad example_client ?path []
                (illegal_requests ?bad example_client ?path [] example_violations) 1
              = Some (RequestFailedStatus ''https://panel.example/api/v2ray/v1/trigger/7'' ''overloaded'')"
    by (simp add: reply_error_def parseResponse_def failing_panel_def success_envelope_def
          example_violations_def assembleURL_def example_client_def)
  have a: "ReportIllegal example_ext example_client [] example_violations
     = (Return (), illegal_requests example_ext example_client ?path [] example_violations)"
    using violation_reports_in_order[OF p, of example_ext "[]" example_violations] ok by simp
  have b: "ReportIllegal ?bad example_client [] example_violations
     = (Error (RequestFailedStatus ''https://panel.example/api/v2ray/v1/trigger/7'' ''overloaded''),
        take 2 (illegal_requests ?bad example_client ?path [] example_violations))"
    using violation_reports_in_order[OF p, of ?bad "[]" example_violations] f0 f1 len
    by (simp add: numeral_2_eq_2)
  have c: "map rq_body (take 2 (illegal_requests ?bad example_client ?path [] example_violations))
     = [IllegalBody \<lparr>ir_RuleID = 1, ir_UID = 7, ir_Reason = ''XrayR cannot save reason''\<rparr>,
        IllegalBody \<lparr>ir_RuleID = 2, ir_UID = 8, ir_Reason = ''XrayR cannot save reason''\<rparr>]"
    by (simp add: example_violations_def createCommonRequest_def illegal_report_def)
  show ?thesis using a b c by simp
qed

end
